theory Spec2Isabelle
  imports Complex_Main
begin

section \<open>Python values used by the script\<close>

text \<open>
  The exceptions that can leave a function of \<^verbatim>\<open>generate_slooze_pdf.py\<close>:
  a failed import, a list index out of range, a failed write of the output file, and
  the \<^verbatim>\<open>SystemExit\<close> that the builtin \<^verbatim>\<open>exit(code)\<close> raises.
\<close>

datatype exn = ImportError | IndexError | OSError | SystemExit nat

text \<open>\<^verbatim>\<open>xs[i]\<close> for a list and an index \<^verbatim>\<open>i >= 0\<close> (the indices here
  come from \<^verbatim>\<open>enumerate\<close>): out of range raises \<^verbatim>\<open>IndexError\<close>.\<close>

definition py_index :: "'a list \<Rightarrow> nat \<Rightarrow> exn + 'a" where
  "py_index xs i = (if i < length xs then Inr (xs ! i) else Inl IndexError)"

text \<open>\<^verbatim>\<open>str(n)\<close> for a non-negative integer: its decimal digits.\<close>

fun str_nat :: "nat \<Rightarrow> string" where
  "str_nat n =
     (if n < 10 then [char_of (48 + n)]
      else str_nat (n div 10) @ [char_of (48 + n mod 10)])"

declare str_nat.simps [simp del]

text \<open>\<^verbatim>\<open>s.split(sep, 1)\<close> for a one-character separator: at most one split, at
  the first occurrence of the separator; the separator itself is dropped.\<close>

fun split_once :: "char \<Rightarrow> string \<Rightarrow> string list" where
  "split_once sep [] = [[]]"
| "split_once sep (c # cs) =
     (if c = sep then [[], cs]
      else (case split_once sep cs of
              [] \<Rightarrow> [[c]]
            | p # ps \<Rightarrow> (c # p) # ps))"

section \<open>The drawing library, as far as the script observes it\<close>

text \<open>
  The class \<^verbatim>\<open>SloozePDF\<close> extends \<^verbatim>\<open>fpdf.FPDF\<close>, which is not part
  of the repository. The script reads three things back from the library: the vertical
  cursor (\<^verbatim>\<open>get_y\<close>), the page number (\<^verbatim>\<open>page_no\<close>) and the width of a
  string (\<^verbatim>\<open>get_string_width\<close>). The state below holds the cursor and the page
  number, the graphics state that the script sets (font, colours, line width, page
  break margin), and the list of everything drawn so far, each item with the page it is
  on, the graphics state it was drawn in and whether it was drawn by the document body,
  by \<^verbatim>\<open>header()\<close> or by \<^verbatim>\<open>footer()\<close>. The horizontal cursor is never
  read by the script and is left to the library.
\<close>

type_synonym rgb = "nat \<times> nat \<times> nat"

record font =
  font_family :: string
  font_style :: string
  font_size_pt :: real

datatype layer = Body | Header | Footer

text \<open>
  What a drawing call leaves on the page, with the arguments of the call:
  \<^verbatim>\<open>cell(w, h, txt, border, ln, align, fill)\<close>,
  \<^verbatim>\<open>multi_cell(w, h, txt, fill)\<close>, \<^verbatim>\<open>line(x1, y1, x2, y2)\<close> and
  \<^verbatim>\<open>rect(x, y, w, h, style)\<close>.
\<close>

datatype shape =
    Cell real real string nat nat string bool
  | MultiCell real real string bool
  | Line real real real real
  | Rect real real real real string

record item =
  on_page :: nat
  at_y :: real
  origin :: layer
  in_font :: font
  in_text_color :: rgb
  in_draw_color :: rgb
  in_fill_color :: rgb
  in_line_width :: real
  shape_of :: shape

record pdf =
  page :: nat
  cur_y :: real
  lasth :: real
  cur_font :: font
  text_color :: rgb
  draw_color :: rgb
  fill_color :: rgb
  line_width :: real
  auto_page_break :: bool
  b_margin :: real
  cur_layer :: layer
  drawn :: "item list"

text \<open>
  Text measurement belongs to the library and its font tables. It is a parameter of the
  model: the width of a string in a font, the number of lines into which
  \<^verbatim>\<open>multi_cell\<close> breaks a text, and the height of a cell that is given a width
  only (\<^verbatim>\<open>cell(5)\<close>).
\<close>

record layout =
  string_width :: "font \<Rightarrow> string \<Rightarrow> real"
  line_count :: "pdf \<Rightarrow> real \<Rightarrow> string \<Rightarrow> nat"
  default_h :: "font \<Rightarrow> real"

text \<open>The page is A4 in millimetres, as the cover's background rectangle
  \<^verbatim>\<open>rect(0, 0, 210, 297, 'F')\<close> assumes, with the library's margins of 10.\<close>

definition page_w :: real where "page_w = 210"
definition page_h :: real where "page_h = 297"
definition l_margin :: real where "l_margin = 10"
definition r_margin :: real where "r_margin = 10"
definition t_margin :: real where "t_margin = 10"

text \<open>The width between the left and the right margin.\<close>

definition content_width :: real where
  "content_width = page_w - l_margin - r_margin"

text \<open>The state of a fresh \<^verbatim>\<open>FPDF()\<close> object: no page yet, the library's
  defaults.\<close>

definition FPDF_init :: pdf where
  "FPDF_init =
     \<lparr>page = 0, cur_y = 0, lasth = 0,
      cur_font = \<lparr>font_family = [], font_style = [], font_size_pt = 12\<rparr>,
      text_color = (0, 0, 0), draw_color = (0, 0, 0), fill_color = (0, 0, 0),
      line_width = 0.2, auto_page_break = True, b_margin = 20,
      cur_layer = Body, drawn = []\<rparr>"

subsection \<open>Reading the state\<close>

definition page_no :: "pdf \<Rightarrow> nat" where
  "page_no s = page s"

definition get_y :: "pdf \<Rightarrow> real" where
  "get_y s = cur_y s"

definition get_string_width :: "layout \<Rightarrow> pdf \<Rightarrow> string \<Rightarrow> real" where
  "get_string_width L s txt = string_width L (cur_font s) txt"

subsection \<open>Setting the graphics state\<close>

definition set_font :: "string \<Rightarrow> string \<Rightarrow> real \<Rightarrow> pdf \<Rightarrow> pdf" where
  "set_font fam sty sz s =
     s\<lparr>cur_font := \<lparr>font_family = fam, font_style = sty, font_size_pt = sz\<rparr>\<rparr>"

definition set_text_color :: "nat \<Rightarrow> nat \<Rightarrow> nat \<Rightarrow> pdf \<Rightarrow> pdf" where
  "set_text_color r g b s = s\<lparr>text_color := (r, g, b)\<rparr>"

definition set_draw_color :: "nat \<Rightarrow> nat \<Rightarrow> nat \<Rightarrow> pdf \<Rightarrow> pdf" where
  "set_draw_color r g b s = s\<lparr>draw_color := (r, g, b)\<rparr>"

definition set_fill_color :: "nat \<Rightarrow> nat \<Rightarrow> nat \<Rightarrow> pdf \<Rightarrow> pdf" where
  "set_fill_color r g b s = s\<lparr>fill_color := (r, g, b)\<rparr>"

definition set_line_width :: "real \<Rightarrow> pdf \<Rightarrow> pdf" where
  "set_line_width w s = s\<lparr>line_width := w\<rparr>"

definition set_auto_page_break :: "bool \<Rightarrow> real \<Rightarrow> pdf \<Rightarrow> pdf" where
  "set_auto_page_break auto margin s = s\<lparr>auto_page_break := auto, b_margin := margin\<rparr>"

text \<open>\<^verbatim>\<open>set_y(y)\<close>: a negative value counts from the bottom of the page.
  \<^verbatim>\<open>set_xy(x, y)\<close> moves the vertical cursor the same way.\<close>

definition set_y :: "real \<Rightarrow> pdf \<Rightarrow> pdf" where
  "set_y v s = s\<lparr>cur_y := (if 0 \<le> v then v else page_h + v)\<rparr>"

definition set_xy :: "real \<Rightarrow> real \<Rightarrow> pdf \<Rightarrow> pdf" where
  "set_xy u v s = set_y v s"

text \<open>\<^verbatim>\<open>ln(h)\<close> moves the cursor down by \<open>h\<close>; \<^verbatim>\<open>ln()\<close> by the
  height of the last cell.\<close>

definition ln_pdf :: "real option \<Rightarrow> pdf \<Rightarrow> pdf" where
  "ln_pdf h s = s\<lparr>cur_y := cur_y s + (case h of None \<Rightarrow> lasth s | Some v \<Rightarrow> v)\<rparr>"

subsection \<open>Drawing\<close>

text \<open>Every drawing call appends one item: the current page, cursor, layer and
  graphics state, and the shape.\<close>

definition put :: "shape \<Rightarrow> pdf \<Rightarrow> pdf" where
  "put sh s =
     s\<lparr>drawn := drawn s @
        [\<lparr>on_page = page s, at_y = cur_y s, origin = cur_layer s, in_font = cur_font s,
          in_text_color = text_color s, in_draw_color = draw_color s,
          in_fill_color = fill_color s, in_line_width = line_width s,
          shape_of = sh\<rparr>]\<rparr>"

definition line :: "real \<Rightarrow> real \<Rightarrow> real \<Rightarrow> real \<Rightarrow> pdf \<Rightarrow> pdf" where
  "line x1 y1 x2 y2 s = put (Line x1 y1 x2 y2) s"

definition rect :: "real \<Rightarrow> real \<Rightarrow> real \<Rightarrow> real \<Rightarrow> string \<Rightarrow> pdf \<Rightarrow> pdf" where
  "rect x0 y0 w h sty s = put (Rect x0 y0 w h sty) s"

text \<open>
  The printing part of \<^verbatim>\<open>cell\<close>: the cell is drawn at the cursor, its height
  is remembered, and with \<^verbatim>\<open>ln >= 1\<close> the cursor goes down by the height of
  the cell.
\<close>

definition print_cell ::
  "real \<Rightarrow> real \<Rightarrow> string \<Rightarrow> nat \<Rightarrow> nat \<Rightarrow> string \<Rightarrow> bool \<Rightarrow> pdf \<Rightarrow> pdf" where
  "print_cell w h txt border ln_arg align fill s =
     (let s1 = put (Cell w h txt border ln_arg align fill) s
      in s1\<lparr>lasth := h, cur_y := (if 0 < ln_arg then cur_y s + h else cur_y s)\<rparr>)"

section \<open>Page chrome: \<^verbatim>\<open>SloozePDF.header\<close> and \<^verbatim>\<open>SloozePDF.footer\<close>\<close>

text \<open>
  The library calls \<^verbatim>\<open>header()\<close> and \<^verbatim>\<open>footer()\<close> itself, from
  \<^verbatim>\<open>add_page\<close> and when the document is closed. While they run no page break
  is taken (the cursor is at the top margin in \<^verbatim>\<open>header\<close>, and the library
  switches page breaks off in \<^verbatim>\<open>footer\<close>), so their \<^verbatim>\<open>cell\<close> calls
  are the printing part alone; \<open>cell_in_chrome\<close> below shows that this is what
  \<open>cell\<close> does there.
\<close>

definition header :: "pdf \<Rightarrow> pdf" where
  "header s =
     (if page_no s = 1 then s
      else
        let s = set_font ''Arial'' ''B'' 9 s;
            s = set_text_color 102 102 102 s;
            s = print_cell 0 8 ''Slooze Data Science Challenge - Technical Documentation''
                  0 0 ''C'' False s;
            s = set_draw_color 200 200 200 s;
            s = line 15 (get_y s + 5) 195 (get_y s + 5) s;
            s = ln_pdf (Some 8) s
        in s)"

definition footer :: "pdf \<Rightarrow> pdf" where
  "footer s =
     (if page_no s = 1 then s
      else
        let s = set_y (- 15) s;
            s = set_font ''Arial'' ''I'' 8 s;
            s = set_text_color 128 128 128 s;
            s = print_cell 0 10 (''Page '' @ str_nat (page_no s)) 0 0 ''C'' False s
        in s)"

section \<open>Pages and automatic page breaks\<close>

text \<open>
  \<^verbatim>\<open>add_page\<close>: the footer of the page that ends (when there is one), the new
  page with the cursor at the top margin, its header; the font, the colours and the
  line width of the caller are put back afterwards.
\<close>

definition restore :: "pdf \<Rightarrow> pdf \<Rightarrow> pdf" where
  "restore s0 s =
     s\<lparr>cur_font := cur_font s0, text_color := text_color s0, draw_color := draw_color s0,
       fill_color := fill_color s0, line_width := line_width s0\<rparr>"

definition add_page :: "pdf \<Rightarrow> pdf" where
  "add_page s =
     (let s1 = (if 0 < page s then footer (s\<lparr>cur_layer := Footer\<rparr>) else s);
          s2 = (restore s s1)\<lparr>page := page s + 1, cur_y := t_margin, cur_layer := Header\<rparr>;
          s3 = header s2
      in (restore s s3)\<lparr>cur_layer := Body\<rparr>)"

text \<open>Closing the document (\<^verbatim>\<open>output\<close> does it): a page if there is none,
  and the footer of the last page.\<close>

definition close :: "pdf \<Rightarrow> pdf" where
  "close s =
     (let s0 = (if page s = 0 then add_page s else s)
      in (footer (s0\<lparr>cur_layer := Footer\<rparr>))\<lparr>cur_layer := Body\<rparr>)"

text \<open>
  A cell of height \<open>h\<close> does not fit when it would end below the page break trigger,
  the bottom margin set by \<^verbatim>\<open>set_auto_page_break\<close>. Then the library starts a
  new page before it prints the cell.
\<close>

definition page_break_trigger :: "pdf \<Rightarrow> real" where
  "page_break_trigger s = page_h - b_margin s"

definition will_page_break :: "pdf \<Rightarrow> real \<Rightarrow> bool" where
  "will_page_break s h \<longleftrightarrow>
     auto_page_break s \<and> cur_layer s = Body \<and> page_break_trigger s < cur_y s + h"

definition page_break_if_needed :: "real \<Rightarrow> pdf \<Rightarrow> pdf" where
  "page_break_if_needed h s = (if will_page_break s h then add_page s else s)"

definition cell ::
  "real \<Rightarrow> real \<Rightarrow> string \<Rightarrow> nat \<Rightarrow> nat \<Rightarrow> string \<Rightarrow> bool \<Rightarrow> pdf \<Rightarrow> pdf" where
  "cell w h txt border ln_arg align fill s =
     print_cell w h txt border ln_arg align fill (page_break_if_needed h s)"

text \<open>
  \<^verbatim>\<open>multi_cell(w, h, txt)\<close> prints the text in as many lines of height \<open>h\<close>
  as the library's line breaking gives, each line with the page break check of a cell.
  The paragraph is recorded as one item, where its first line is printed.
\<close>

fun feed_lines :: "nat \<Rightarrow> real \<Rightarrow> pdf \<Rightarrow> pdf" where
  "feed_lines 0 h s = s"
| "feed_lines (Suc n) h s =
     (let s1 = page_break_if_needed h s
      in feed_lines n h (s1\<lparr>cur_y := cur_y s1 + h\<rparr>))"

definition multi_cell :: "layout \<Rightarrow> real \<Rightarrow> real \<Rightarrow> string \<Rightarrow> bool \<Rightarrow> pdf \<Rightarrow> pdf" where
  "multi_cell L w h txt fill s =
     (let n = line_count L s w txt;
          s1 = page_break_if_needed h s;
          s2 = put (MultiCell w h txt fill) s1;
          s3 = (case n of 0 \<Rightarrow> s2 | Suc m \<Rightarrow> feed_lines m h (s2\<lparr>cur_y := cur_y s2 + h\<rparr>))
      in s3\<lparr>lasth := h\<rparr>)"

section \<open>The block renderers of \<^verbatim>\<open>SloozePDF\<close>\<close>

definition chapter_title :: "string \<Rightarrow> int \<Rightarrow> pdf \<Rightarrow> pdf" where
  "chapter_title title level s =
     (if level = 1 then
        let s = set_font ''Arial'' ''B'' 16 s;
            s = set_text_color 26 26 46 s;
            s = cell 0 12 title 0 1 ''L'' False s;
            s = set_draw_color 233 69 96 s;
            s = set_line_width 0.5 s;
            s = line 15 (get_y s) 195 (get_y s) s;
            s = ln_pdf (Some 5) s
        in s
      else if level = 2 then
        let s = set_font ''Arial'' ''B'' 13 s;
            s = set_text_color 22 33 62 s;
            s = cell 0 10 title 0 1 ''L'' False s;
            s = ln_pdf (Some 2) s
        in s
      else
        let s = set_font ''Arial'' ''B'' 11 s;
            s = set_text_color 51 51 51 s;
            s = cell 0 8 title 0 1 ''L'' False s;
            s = ln_pdf (Some 1) s
        in s)"

definition chapter_body :: "layout \<Rightarrow> string \<Rightarrow> pdf \<Rightarrow> pdf" where
  "chapter_body L body s =
     (let s = set_font ''Arial'' [] 10 s;
          s = set_text_color 51 51 51 s;
          s = multi_cell L 0 6 body False s;
          s = ln_pdf None s
      in s)"

text \<open>The bullet glyph \<^verbatim>\<open>chr(149)\<close>.\<close>

definition bullet :: string where
  "bullet = [char_of (149 :: nat)]"

text \<open>One pass of the loop of \<^verbatim>\<open>bullet_list\<close>.\<close>

definition bullet_item :: "layout \<Rightarrow> bool \<Rightarrow> string \<Rightarrow> pdf \<Rightarrow> pdf" where
  "bullet_item L bold_prefix item s =
     (if bold_prefix \<and> CHR '':'' \<in> set item then
        let parts = split_once CHR '':'' item;
            s = cell 5 (default_h L (cur_font s)) [] 0 0 [] False s;
            s = cell 5 6 bullet 0 0 ''L'' False s;
            s = set_font ''Arial'' ''B'' 10 s;
            s = cell (get_string_width L s (parts ! 0 @ '': '')) 6 (parts ! 0 @ '':'')
                  0 0 [] False s;
            s = set_font ''Arial'' [] 10 s;
            s = multi_cell L 0 6 (parts ! 1) False s
        in s
      else
        let s = cell 5 (default_h L (cur_font s)) [] 0 0 [] False s;
            s = cell 5 6 bullet 0 0 ''L'' False s;
            s = multi_cell L 0 6 item False s
        in s)"

fun bullet_items :: "layout \<Rightarrow> bool \<Rightarrow> string list \<Rightarrow> pdf \<Rightarrow> pdf" where
  "bullet_items L bold_prefix [] s = s"
| "bullet_items L bold_prefix (item # items) s =
     bullet_items L bold_prefix items (bullet_item L bold_prefix item s)"

definition bullet_list :: "layout \<Rightarrow> string list \<Rightarrow> bool \<Rightarrow> pdf \<Rightarrow> pdf" where
  "bullet_list L items bold_prefix s =
     (let s = set_font ''Arial'' [] 10 s;
          s = set_text_color 51 51 51 s;
          s = bullet_items L bold_prefix items s;
          s = ln_pdf (Some 2) s
      in s)"

text \<open>The loop of \<^verbatim>\<open>numbered_list\<close>, over \<^verbatim>\<open>enumerate(items, 1)\<close>.\<close>

fun numbered_items :: "layout \<Rightarrow> nat \<Rightarrow> string list \<Rightarrow> pdf \<Rightarrow> pdf" where
  "numbered_items L i [] s = s"
| "numbered_items L i (item # items) s =
     (let s = cell 5 (default_h L (cur_font s)) [] 0 0 [] False s;
          s = cell 10 6 (str_nat i @ ''.'') 0 0 ''L'' False s;
          s = multi_cell L 0 6 item False s
      in numbered_items L (i + 1) items s)"

definition numbered_list :: "layout \<Rightarrow> string list \<Rightarrow> pdf \<Rightarrow> pdf" where
  "numbered_list L items s =
     (let s = set_font ''Arial'' [] 10 s;
          s = set_text_color 51 51 51 s;
          s = numbered_items L 1 items s;
          s = ln_pdf (Some 2) s
      in s)"

definition key_finding_box :: "layout \<Rightarrow> string \<Rightarrow> string \<Rightarrow> pdf \<Rightarrow> pdf" where
  "key_finding_box L title content s =
     (let start_y = get_y s;
          s = set_draw_color 233 69 96 s;
          s = set_line_width 1 s;
          s = line 15 start_y 15 (start_y + 25) s;
          s = set_fill_color 250 250 250 s;
          s = rect 17 start_y 178 25 ''F'' s;
          s = set_xy 20 (start_y + 3) s;
          s = set_font ''Arial'' ''B'' 10 s;
          s = set_text_color 233 69 96 s;
          s = cell 0 6 title 0 1 [] False s;
          s = set_xy 20 (start_y + 10) s;
          s = set_font ''Arial'' [] 10 s;
          s = set_text_color 51 51 51 s;
          s = multi_cell L 170 5 content False s;
          s = set_y (start_y + 28) s
      in s)"

definition info_box :: "layout \<Rightarrow> string \<Rightarrow> string list \<Rightarrow> pdf \<Rightarrow> pdf" where
  "info_box L title items s =
     (let s = set_font ''Arial'' ''B'' 11 s;
          s = set_text_color 22 33 62 s;
          s = cell 0 8 title 0 1 [] False s;
          s = bullet_list L items True s
      in s)"

text \<open>
  \<^verbatim>\<open>create_table\<close>. The two loops run over \<^verbatim>\<open>enumerate\<close> of the headers
  and of each row, and look the width of column \<open>i\<close> up in \<^verbatim>\<open>col_widths\<close>;
  a lookup out of range raises \<^verbatim>\<open>IndexError\<close> and ends the call. The cells of
  a row are strings here (\<^verbatim>\<open>str(cell)\<close> of a string is the string).
\<close>

definition default_col_widths :: "string list \<Rightarrow> real list" where
  "default_col_widths headers = replicate (length headers) 40"

fun header_cells :: "real list \<Rightarrow> nat \<Rightarrow> string list \<Rightarrow> pdf \<Rightarrow> exn + pdf" where
  "header_cells col_widths i [] s = Inr s"
| "header_cells col_widths i (hdr # headers) s =
     (case py_index col_widths i of
        Inl e \<Rightarrow> Inl e
      | Inr w \<Rightarrow> header_cells col_widths (i + 1) headers (cell w 8 hdr 1 0 ''L'' True s))"

fun row_cells :: "real list \<Rightarrow> nat \<Rightarrow> string list \<Rightarrow> pdf \<Rightarrow> exn + pdf" where
  "row_cells col_widths i [] s = Inr s"
| "row_cells col_widths i (c # cs) s =
     (case py_index col_widths i of
        Inl e \<Rightarrow> Inl e
      | Inr w \<Rightarrow> row_cells col_widths (i + 1) cs (cell w 7 c 1 0 ''L'' False s))"

fun data_rows :: "real list \<Rightarrow> string list list \<Rightarrow> pdf \<Rightarrow> exn + pdf" where
  "data_rows col_widths [] s = Inr s"
| "data_rows col_widths (row # rows) s =
     (case row_cells col_widths 0 row s of
        Inl e \<Rightarrow> Inl e
      | Inr s1 \<Rightarrow> data_rows col_widths rows (ln_pdf None s1))"

definition create_table ::
  "string list \<Rightarrow> string list list \<Rightarrow> real list option \<Rightarrow> pdf \<Rightarrow> exn + pdf" where
  "create_table headers data col_widths s =
     (let col_widths = (case col_widths of None \<Rightarrow> default_col_widths headers | Some ws \<Rightarrow> ws);
          s = set_font ''Arial'' ''B'' 9 s;
          s = set_fill_color 248 249 250 s;
          s = set_text_color 51 51 51 s
      in (case header_cells col_widths 0 headers s of
            Inl e \<Rightarrow> Inl e
          | Inr s \<Rightarrow>
              (let s = ln_pdf None s;
                   s = set_font ''Arial'' [] 9 s;
                   s = set_fill_color 255 255 255 s
               in (case data_rows col_widths data s of
                     Inl e \<Rightarrow> Inl e
                   | Inr s \<Rightarrow> Inr (ln_pdf (Some 3) s)))))"

section \<open>What is on the pages\<close>

text \<open>The items drawn by the document body (not by the page chrome), then their fonts
  and shapes, and the shapes that one layer has drawn on one page.\<close>

definition body_items :: "pdf \<Rightarrow> item list" where
  "body_items s = filter (\<lambda>d. origin d = Body) (drawn s)"

definition body_marks :: "pdf \<Rightarrow> (font \<times> shape) list" where
  "body_marks s = map (\<lambda>d. (in_font d, shape_of d)) (body_items s)"

definition body_shapes :: "pdf \<Rightarrow> shape list" where
  "body_shapes s = map shape_of (body_items s)"

definition chrome_shapes :: "layer \<Rightarrow> nat \<Rightarrow> pdf \<Rightarrow> shape list" where
  "chrome_shapes l p s =
     map shape_of (filter (\<lambda>d. origin d = l \<and> on_page d = p) (drawn s))"

text \<open>The document object as \<^verbatim>\<open>create_slooze_documentation\<close> has it after its
  first three statements: page breaks 20 above the bottom, and the first page open.\<close>

definition page_one :: pdf where
  "page_one = add_page (set_auto_page_break True 20 FPDF_init)"

text \<open>The column widths that \<^verbatim>\<open>create_table\<close> works with, and the condition
  under which none of its lookups is out of range.\<close>

definition widths_used :: "string list \<Rightarrow> real list option \<Rightarrow> real list" where
  "widths_used headers col_widths =
     (case col_widths of None \<Rightarrow> default_col_widths headers | Some ws \<Rightarrow> ws)"

definition table_fits :: "string list \<Rightarrow> string list list \<Rightarrow> real list \<Rightarrow> bool" where
  "table_fits headers data ws \<longleftrightarrow>
     length headers \<le> length ws \<and> list_all (\<lambda>row. length row \<le> length ws) data"

text \<open>
  The vertical space that a title takes, by level, as the three branches of
  \<^verbatim>\<open>chapter_title\<close> give it: the height of the title's cell, and that height
  plus the line break after it.
\<close>

definition title_cell_h :: "int \<Rightarrow> real" where
  "title_cell_h level = (if level = 1 then 12 else if level = 2 then 10 else 8)"

definition title_advance :: "int \<Rightarrow> real" where
  "title_advance level = (if level = 1 then 17 else if level = 2 then 12 else 9)"

text \<open>
  The two fonts of a bullet list, the two parts of an item around its first colon, and
  what one item of a bullet list should leave on the page: the indent and the bullet
  glyph, then either the label with its colon in bold, on the line (a cell with
  \<^verbatim>\<open>ln = 0\<close>), followed by the remainder in regular weight as one paragraph, or
  the whole item in regular weight as one paragraph.
\<close>

definition regular_font :: font where
  "regular_font = \<lparr>font_family = ''Arial'', font_style = [], font_size_pt = 10\<rparr>"

definition bold_font :: font where
  "bold_font = \<lparr>font_family = ''Arial'', font_style = ''B'', font_size_pt = 10\<rparr>"

definition label_of :: "string \<Rightarrow> string" where
  "label_of item = takeWhile (\<lambda>c. c \<noteq> CHR '':'') item"

definition remainder_of :: "string \<Rightarrow> string" where
  "remainder_of item = tl (dropWhile (\<lambda>c. c \<noteq> CHR '':'') item)"

definition bullet_item_marks :: "layout \<Rightarrow> bool \<Rightarrow> string \<Rightarrow> (font \<times> shape) list" where
  "bullet_item_marks L bold_prefix item =
     [(regular_font, Cell 5 (default_h L regular_font) [] 0 0 [] False),
      (regular_font, Cell 5 6 bullet 0 0 ''L'' False)] @
     (if bold_prefix \<and> CHR '':'' \<in> set item
      then [(bold_font, Cell (string_width L bold_font (label_of item @ '': '')) 6
                          (label_of item @ '':'') 0 0 [] False),
            (regular_font, MultiCell 0 6 (remainder_of item) False)]
      else [(regular_font, MultiCell 0 6 item False)])"

text \<open>
  The text of a shape, and all the text that the document body has drawn in a bold
  font.
\<close>

fun shape_text :: "shape \<Rightarrow> string" where
  "shape_text (Cell w h txt border ln_arg align fill) = txt"
| "shape_text (MultiCell w h txt fill) = txt"
| "shape_text (Line x1 y1 x2 y2) = []"
| "shape_text (Rect x0 y0 w h sty) = []"

definition bold_text :: "pdf \<Rightarrow> string" where
  "bold_text s =
     concat (map (\<lambda>m. shape_text (snd m))
       (filter (\<lambda>m. font_style (fst m) = ''B'') (body_marks s)))"

text \<open>
  Where the cursor is (page and height), and where each item of the document body was
  drawn.
\<close>

definition place :: "pdf \<Rightarrow> nat \<times> real" where
  "place s = (page s, cur_y s)"

definition body_places :: "pdf \<Rightarrow> (nat \<times> real) list" where
  "body_places s = map (\<lambda>d. (on_page d, at_y d)) (body_items s)"

text \<open>
  A layout for examples: every character is one unit wide, \<^verbatim>\<open>multi_cell\<close>
  breaks the line after every character, and a cell without a height has height 0.
\<close>

definition narrow_layout :: layout where
  "narrow_layout =
     \<lparr>string_width = (\<lambda>f txt. real (length txt)),
      line_count = (\<lambda>s w txt. length txt),
      default_h = (\<lambda>f. 0)\<rparr>"

section \<open>Documents\<close>

text \<open>
  A document is what \<^verbatim>\<open>create_slooze_documentation\<close> does with its
  \<^verbatim>\<open>pdf\<close> object: a sequence of method calls, of the library and of
  \<^verbatim>\<open>SloozePDF\<close>. \<open>exec\<close> runs one call, \<open>run\<close> a sequence; an exception ends
  the run. \<open>generate\<close> starts from a fresh object and closes the document, as
  \<^verbatim>\<open>pdf.output\<close> does.
\<close>

datatype call =
    SetAutoPageBreak bool real
  | AddPage
  | SetFont string string real
  | SetTextColor nat nat nat
  | SetDrawColor nat nat nat
  | SetFillColor nat nat nat
  | SetLineWidth real
  | SetXY real real
  | SetY real
  | Ln "real option"
  | CellCall real "real option" string nat nat string bool
  | MultiCellCall real real string bool
  | LineCall real real real real
  | RectCall real real real real string
  | ChapterTitle string int
  | ChapterBody string
  | BulletList "string list" bool
  | NumberedList "string list"
  | KeyFindingBox string string
  | InfoBox string "string list"
  | CreateTable "string list" "string list list" "real list option"

fun exec :: "layout \<Rightarrow> call \<Rightarrow> pdf \<Rightarrow> exn + pdf" where
  "exec L (SetAutoPageBreak auto margin) s = Inr (set_auto_page_break auto margin s)"
| "exec L AddPage s = Inr (add_page s)"
| "exec L (SetFont fam sty sz) s = Inr (set_font fam sty sz s)"
| "exec L (SetTextColor r g b) s = Inr (set_text_color r g b s)"
| "exec L (SetDrawColor r g b) s = Inr (set_draw_color r g b s)"
| "exec L (SetFillColor r g b) s = Inr (set_fill_color r g b s)"
| "exec L (SetLineWidth w) s = Inr (set_line_width w s)"
| "exec L (SetXY u v) s = Inr (set_xy u v s)"
| "exec L (SetY v) s = Inr (set_y v s)"
| "exec L (Ln h) s = Inr (ln_pdf h s)"
| "exec L (CellCall w h txt border ln_arg align fill) s =
     Inr (cell w (case h of None \<Rightarrow> default_h L (cur_font s) | Some v \<Rightarrow> v)
            txt border ln_arg align fill s)"
| "exec L (MultiCellCall w h txt fill) s = Inr (multi_cell L w h txt fill s)"
| "exec L (LineCall x1 y1 x2 y2) s = Inr (line x1 y1 x2 y2 s)"
| "exec L (RectCall x0 y0 w h sty) s = Inr (rect x0 y0 w h sty s)"
| "exec L (ChapterTitle title level) s = Inr (chapter_title title level s)"
| "exec L (ChapterBody body) s = Inr (chapter_body L body s)"
| "exec L (BulletList items bold_prefix) s = Inr (bullet_list L items bold_prefix s)"
| "exec L (NumberedList items) s = Inr (numbered_list L items s)"
| "exec L (KeyFindingBox title content) s = Inr (key_finding_box L title content s)"
| "exec L (InfoBox title items) s = Inr (info_box L title items s)"
| "exec L (CreateTable headers data col_widths) s = create_table headers data col_widths s"

fun run :: "layout \<Rightarrow> call list \<Rightarrow> pdf \<Rightarrow> exn + pdf" where
  "run L [] s = Inr s"
| "run L (c # cs) s = (case exec L c s of Inl e \<Rightarrow> Inl e | Inr s1 \<Rightarrow> run L cs s1)"

definition generate :: "layout \<Rightarrow> call list \<Rightarrow> exn + pdf" where
  "generate L calls =
     (case run L calls FPDF_init of Inl e \<Rightarrow> Inl e | Inr s \<Rightarrow> Inr (close s))"

text \<open>
  The shapes that \<^verbatim>\<open>header()\<close> draws (the title line at the top margin and
  the rule 5 below it) and that \<^verbatim>\<open>footer()\<close> draws on page \<open>p\<close>, and the
  state of the page chrome while a document is being drawn: on the pages from the second
  to the current one the header is there, on the pages from the second to the one
  before the current one the footer is there, and there is no other chrome.
\<close>

definition header_shapes :: "shape list" where
  "header_shapes =
     [Cell 0 8 ''Slooze Data Science Challenge - Technical Documentation'' 0 0 ''C'' False,
      Line 15 15 195 15]"

definition footer_shapes :: "nat \<Rightarrow> shape list" where
  "footer_shapes p = [Cell 0 10 (''Page '' @ str_nat p) 0 0 ''C'' False]"

definition chrome_inv :: "pdf \<Rightarrow> bool" where
  "chrome_inv s \<longleftrightarrow>
     cur_layer s = Body \<and>
     (\<forall>p. chrome_shapes Header p s = (if 2 \<le> p \<and> p \<le> page s then header_shapes else [])) \<and>
     (\<forall>p. chrome_shapes Footer p s = (if 2 \<le> p \<and> p < page s then footer_shapes p else []))"

section \<open>The document of \<^verbatim>\<open>create_slooze_documentation\<close>\<close>

text \<open>
  The calls of \<^verbatim>\<open>create_slooze_documentation\<close> in the order of the source,
  one list for the cover and one for each \<^verbatim>\<open>add_page()\<close> after it. The only
  value that is not a literal is the month and year on the cover,
  \<^verbatim>\<open>datetime.now().strftime('%B %Y')\<close>.
\<close>

definition toc_items :: "(string \<times> nat) list" where
  "toc_items =
     [(''1. Executive Summary'', 3),
      (''2. Problem Statement & Objectives'', 4),
      (''   2.1 Business Context'', 4),
      (''   2.2 Core Objectives'', 4),
      (''3. Dataset Overview'', 5),
      (''4. Methodology'', 6),
      (''   4.1 Phase 1: Data Exploration & Cleaning'', 6),
      (''   4.2 Phase 2: ABC Analysis'', 7),
      (''   4.3 Phase 2.2: Demand Forecasting'', 8),
      (''   4.4 Phase 2.3: Reorder Point Analysis'', 8),
      (''   4.5 Phase 2.4: Lead Time Analysis'', 9),
      (''5. Key Results'', 10),
      (''6. Assumptions & Limitations'', 12),
      (''7. Business Recommendations'', 13),
      (''8. How to Run the Code'', 14),
      (''9. Conclusion'', 15)]"

text \<open>\<^verbatim>\<open>s.startswith(p)\<close> and \<^verbatim>\<open>s.strip()\<close>.\<close>

definition startswith :: "string \<Rightarrow> string \<Rightarrow> bool" where
  "startswith s p \<longleftrightarrow> take (length p) s = p"

definition is_space :: "char \<Rightarrow> bool" where
  "is_space c \<longleftrightarrow> c \<in> set [CHR '' '', CHR 0x09, CHR 0x0A, CHR 0x0B, CHR 0x0C, CHR 0x0D]"

definition strip :: "string \<Rightarrow> string" where
  "strip s = rev (dropWhile is_space (rev (dropWhile is_space s)))"

text \<open>One pass of the loop over \<^verbatim>\<open>toc_items\<close>.\<close>

definition toc_entry :: "string \<times> nat \<Rightarrow> call list" where
  "toc_entry entry =
     (case entry of (item, page_number) \<Rightarrow>
        (if startswith item ''   ''
         then [CellCall 10 None [] 0 0 [] False, SetFont ''Arial'' [] 10]
         else [SetFont ''Arial'' ''B'' 11]) @
        [CellCall 150 (Some 7) (strip item) 0 0 [] False,
         CellCall 0 (Some 7) (str_nat page_number) 0 1 ''R'' False])"

definition cover_page :: "string \<Rightarrow> call list" where
  "cover_page month_year =
     [SetAutoPageBreak True 20,
      AddPage,
      SetFillColor 26 26 46,
      RectCall 0 0 210 297 ''F'',
      SetFillColor 233 69 96,
      RectCall 0 289 210 8 ''F'',
      SetXY 65 60,
      SetFillColor 233 69 96,
      RectCall 65 60 80 10 ''F'',
      SetFont ''Arial'' ''B'' 10,
      SetTextColor 255 255 255,
      SetXY 65 63,
      CellCall 80 (Some 6) ''DATA SCIENCE CHALLENGE'' 0 0 ''C'' False,
      SetXY 15 100,
      SetFont ''Arial'' ''B'' 28,
      SetTextColor 255 255 255,
      CellCall 180 (Some 15) ''Inventory Optimization &'' 0 1 ''C'' False,
      CellCall 180 (Some 15) ''Supply Chain Analysis'' 0 1 ''C'' False,
      SetXY 15 145,
      SetFont ''Arial'' [] 14,
      SetTextColor 200 200 200,
      CellCall 180 (Some 10) ''Slooze Take-Home Challenge'' 0 1 ''C'' False,
      SetDrawColor 233 69 96,
      SetLineWidth 1,
      LineCall 85 175 125 175,
      SetXY 15 200,
      SetFont ''Arial'' [] 11,
      SetTextColor 180 180 180,
      CellCall 180 (Some 8) ''Technical Documentation'' 0 1 ''C'' False,
      CellCall 180 (Some 8) ''Comprehensive Analysis Report'' 0 1 ''C'' False,
      CellCall 180 (Some 8) month_year 0 1 ''C'' False]"

definition table_of_contents :: "call list" where
  "table_of_contents =
     [AddPage,
      ChapterTitle ''Table of Contents'' 1,
      SetFont ''Arial'' [] 11,
      SetTextColor 51 51 51] @
     concat (map toc_entry toc_items) @
     []"

definition section_1 :: "call list" where
  "section_1 =
     [AddPage,
      ChapterTitle ''1. Executive Summary'' 1,
      ChapterBody ''This analysis presents a comprehensive inventory optimization system for Slooze, a retail wine and spirits company operating across multiple locations. Using 2.37 million purchase records, 1.05 million sales transactions, and inventory data from 2016, we implemented four core analytical frameworks to transform raw transactional data into actionable business intelligence.'',
      ChapterTitle ''Key Deliverables'' 2,
      BulletList [''ABC Analysis: Classified 7,658 products by revenue contribution using the 80/20 rule'', ''Demand Forecasting: Built Facebook Prophet time-series models for top 5 A-Class products'', ''Reorder Point Analysis: Calculated optimal inventory triggers with 95% service level safety stock'', ''Lead Time Analysis: Evaluated 120 vendors across $321.9 million procurement spend''] True,
      KeyFindingBox ''Critical Finding'' ''80% of revenue comes from only 19.6% of products (A-Class), yet none of these critical products use Premium suppliers. This creates a significant supply chain vulnerability that requires immediate attention.'',
      ChapterTitle ''Summary Metrics'' 2,
      CreateTable [''Metric'', ''Value''] [[''Total Revenue Analyzed'', ''$33.1 Million''], [''Unique Products'', ''7,658''], [''Vendors Evaluated'', ''128''], [''Store Locations'', ''79'']] (Some [80, 80])]"

definition section_2 :: "call list" where
  "section_2 =
     [AddPage,
      ChapterTitle ''2. Problem Statement & Objectives'' 1,
      ChapterTitle ''2.1 Business Context'' 2,
      ChapterBody ''Slooze manages millions of transactions across sales, purchases, and inventory records spanning 79+ store locations. Traditional spreadsheet-based analysis is inadequate for this data volume, creating risks of:'',
      BulletList [''Stockouts of high-revenue items leading to lost sales'', ''Excess inventory carrying costs tying up working capital'', ''Missed optimization opportunities from lack of data-driven insights'', ''Supplier inefficiencies going undetected''] True,
      ChapterTitle ''2.2 Core Objectives'' 2,
      CreateTable [''Objective'', ''Description'', ''Success Metric''] [[''Inventory Optimization'', ''Determine ideal stock levels by category'', ''Reduced stockouts + carrying costs''], [''Sales & Purchase Insights'', ''Identify trends and supplier efficiency'', ''Clear product/vendor segmentation''], [''Process Improvement'', ''Optimize procurement and stock control'', ''Data-driven reorder triggers'']] (Some [50, 65, 55]),
      ChapterTitle ''Analytical Tasks Completed'' 2,
      NumberedList [''ABC Analysis - Product classification by revenue contribution'', ''Demand Forecasting - Time-series prediction using Prophet'', ''Reorder Point Analysis - Inventory trigger calculations with safety stock'', ''Lead Time Analysis - Supplier performance evaluation'']]"

definition section_3 :: "call list" where
  "section_3 =
     [AddPage,
      ChapterTitle ''3. Dataset Overview'' 1,
      ChapterTitle ''Data Sources (6 Files)'' 2,
      CreateTable [''File Name'', ''Size'', ''Records'', ''Purpose''] [[''SalesFINAL12312016.csv'', ''127.86 MB'', ''1,048,575'', ''Sales transactions''], [''PurchasesFINAL12312016.csv'', ''401.75 MB'', ''2,372,474'', ''Purchase orders''], [''BegInvFINAL12312016.csv'', ''19.31 MB'', ''206,529'', ''Beginning inventory''], [''EndInvFINAL12312016.csv'', ''21.00 MB'', ''224,489'', ''Ending inventory''], [''InvoicePurchases12312016.csv'', ''591 KB'', ''5,543'', ''Invoice records''], [''2017PurchasePricesDec.csv'', ''1.16 MB'', ''12,261'', ''Price reference'']] (Some [55, 30, 30, 55]),
      ChapterTitle ''Data Quality Summary'' 2,
      InfoBox ''Dataset Characteristics'' [''Date Range: January 1 - December 31, 2016 (with February anomaly)'', ''Geography: 79-81 store locations across multiple cities'', ''Products: ~7,658 unique SKUs'', ''Vendors: 128 significant suppliers (>10 purchase orders)'', ''Total Records: 3.87 million rows analyzed'']]"

definition section_4 :: "call list" where
  "section_4 =
     [AddPage,
      ChapterTitle ''4. Methodology'' 1,
      ChapterTitle ''4.1 Phase 1: Data Exploration & Cleaning'' 2,
      ChapterBody ''The dataset was automatically downloaded using KaggleHub (61.9 MB compressed). All 6 CSV files were loaded into pandas DataFrames with appropriate data type optimization for memory efficiency.'',
      ChapterTitle ''Data Cleaning Steps'' 3,
      NumberedList [''Standardized date formats (PODate, ReceivingDate, SalesDate)'', ''Calculated derived metrics (LeadTime_Days, Revenue)'', ''Removed invalid lead times (negative or zero values)'', ''Converted 2,372,474 purchase records to datetime format'', ''Stripped whitespace from string columns'', ''Validated referential integrity across datasets''],
      ChapterTitle ''4.2 Phase 2: ABC Analysis'' 2,
      ChapterBody ''Classify inventory by revenue contribution to prioritize management attention and allocate resources effectively.'',
      ChapterTitle ''Classification Criteria'' 3,
      CreateTable [''Class'', ''Criteria'', ''Priority''] [[''A-Class'', ''Top 80% cumulative revenue'', ''High''], [''B-Class'', ''80-95% cumulative revenue'', ''Medium''], [''C-Class'', ''Bottom 5% cumulative revenue'', ''Low'']] (Some [30, 80, 50]),
      ChapterTitle ''4.3 Phase 2.2: Demand Forecasting'' 2,
      ChapterBody ''Implemented Facebook Prophet models with daily and weekly seasonality, multiplicative seasonality mode, and 14-day forecast horizon. MAE and RMSE calculated for model validation.'',
      ChapterTitle ''4.4 Phase 2.3: Reorder Point Analysis'' 2,
      ChapterBody ''ROP = (Average Daily Demand x Lead Time) + Safety Stock'',
      ChapterBody ''Where Safety Stock = Z x Standard Deviation x sqrt(Lead Time)'',
      CreateTable [''Parameter'', ''Value'', ''Description''] [[''Service Level'', ''95%'', ''Z-score = 1.65 (industry standard)''], [''Lead Time'', ''7.3-7.6 days'', ''Vendor-specific average''], [''Safety Stock'', ''Variable'', ''Based on demand variability'']] (Some [40, 35, 75]),
      ChapterTitle ''4.5 Phase 2.4: Lead Time Analysis'' 2,
      CreateTable [''Classification'', ''Lead Time'', ''Std Dev'', ''Risk''] [[''Premium'', ''<= 7.7 days'', ''<= 2.2 days'', ''Low''], [''Fast but Variable'', ''<= 7.7 days'', ''> 2.2 days'', ''Medium''], [''Slow but Steady'', ''> 7.7 days'', ''<= 2.2 days'', ''Low-Medium''], [''High Risk'', ''> 7.7 days'', ''> 2.2 days'', ''High'']] (Some [45, 35, 35, 25])]"

definition section_5 :: "call list" where
  "section_5 =
     [AddPage,
      ChapterTitle ''5. Key Results'' 1,
      ChapterTitle ''ABC Analysis Results'' 2,
      CreateTable [''Category'', ''Products'', ''% SKUs'', ''Revenue'', ''% Revenue''] [[''A-Class'', ''1,502'', ''19.6%'', ''$26.51M'', ''80.0%''], [''B-Class'', ''1,813'', ''23.7%'', ''$4.97M'', ''15.0%''], [''C-Class'', ''4,343'', ''56.7%'', ''$1.66M'', ''5.0%'']] (Some [25, 30, 25, 35, 30]),
      ChapterTitle ''Top 5 Revenue Products'' 2,
      CreateTable [''Rank'', ''Product'', ''Revenue'', ''% of Total''] [[''1'', ''Captain Morgan Spiced Rum'', ''$444,811'', ''1.34%''], [''2'', ''Ketel One Vodka'', ''$357,759'', ''1.08%''], [''3'', ''Jack Daniels No 7 Black'', ''$344,712'', ''1.04%''], [''4'', ''Absolut 80 Proof'', ''$288,135'', ''0.87%''], [''5'', ''Tito's Handmade Vodka'', ''$275,163'', ''0.83%'']] (Some [15, 85, 35, 25]),
      ChapterTitle ''Reorder Point Results'' 2,
      CreateTable [''Product'', ''ROP'', ''Current'', ''Status''] [[''Captain Morgan'', ''5,676'', ''16,769'', ''Healthy''], [''Ketel One'', ''3,616'', ''16,770'', ''Healthy''], [''Jack Daniels'', ''2,620'', ''15,047'', ''Healthy''], [''Absolut'', ''2,978'', ''12,268'', ''Healthy''], [''Tito's'', ''2,811'', ''14,018'', ''Healthy'']] (Some [45, 35, 35, 25]),
      KeyFindingBox ''Inventory Status'' ''All products are currently healthy with current stock levels 2-4x above reorder points. No immediate stockout risk detected.'',
      ChapterTitle ''Lead Time Analysis Results'' 2,
      CreateTable [''Tier'', ''Vendors'', ''Spend'', ''Risk''] [[''Premium'', ''26 (21.7%)'', ''$50.6M'', ''Low''], [''Fast but Variable'', ''34 (28.3%)'', ''$165.0M'', ''Medium''], [''Slow but Steady'', ''35 (29.2%)'', ''$82.9M'', ''Low-Medium''], [''High Risk'', ''25 (20.8%)'', ''$23.5M'', ''High'']] (Some [40, 35, 35, 30]),
      KeyFindingBox ''Critical Supplier Risk'' ''All top 5 revenue products use \"Fast but Variable\" or \"Slow but Steady\" vendors. None use Premium vendors. Vendor 3960 (Diageo) supplies 40% of A-Class revenue - significant concentration risk.'']"

definition section_6 :: "call list" where
  "section_6 =
     [AddPage,
      ChapterTitle ''6. Assumptions & Limitations'' 1,
      ChapterTitle ''Data Limitations'' 2,
      NumberedList [''Temporal Scope: Only 60 days of reliable data (January 2016). February showed 90% sales drop.'', ''Missing Costs: No carrying cost or ordering cost data prevented EOQ calculation.'', ''Vendor Names: Some vendors only had ID numbers; names extracted from InvoicePurchases.''],
      ChapterTitle ''Analytical Assumptions'' 2,
      NumberedList [''Service Level: 95% used for safety stock calculations (Z = 1.65, industry standard)'', ''Lead Time Distribution: Assumed normal distribution for safety stock formula'', ''Demand Stability: Used January 2016 averages (ignoring February anomaly)'', ''Product Classification: ABC based on 2-month snapshot; annual data would be more robust''],
      ChapterTitle ''Technical Constraints'' 2,
      NumberedList [''Prophet Forecasts: Limited by short time series (60 observations)'', ''External Regressors: No weather, holidays, or promotions included'', ''Vendor Classification: Thresholds based on median rather than business SLAs'']]"

definition section_7 :: "call list" where
  "section_7 =
     [AddPage,
      ChapterTitle ''7. Business Recommendations'' 1,
      ChapterTitle ''Immediate Actions (0-30 Days)'' 2,
      NumberedList [''Dual-Source Vendor 3960: 40% of A-Class revenue depends on single supplier (Diageo)'', ''Renegotiate SLAs: $85M spent with vendors slower than 7.7 days; implement penalties'', ''Increase Safety Stock: Apply 1.5x multiplier for 'Fast but Variable' vendors'', ''Consolidate Orders: Top 3 vendors = 618K orders; negotiate volume discounts''],
      ChapterTitle ''Strategic Initiatives (30-90 Days)'' 2,
      NumberedList [''Supplier Development: Move A-Class products to Premium vendors (currently 0/5)'', ''Inventory Rationalization: Review 4,343 C-Class products for discontinuation'', ''Data Infrastructure: Collect full year of data for seasonal forecasting''],
      ChapterTitle ''Risk Mitigation Priorities'' 2,
      CreateTable [''Risk Factor'', ''Exposure'', ''Mitigation''] [[''Vendor Concentration'', ''21.7% Premium tier'', ''Diversify supplier base''], [''Variable Suppliers'', ''$165M (51.2%) spend'', ''Increase safety stock''], [''Lead Time Buffer'', ''7.6-day avg, 2.2-day var'', ''Maintain safety coverage'']] (Some [45, 55, 50])]"

definition section_8 :: "call list" where
  "section_8 =
     [AddPage,
      ChapterTitle ''8. How to Run the Code'' 1,
      ChapterTitle ''Prerequisites'' 2,
      BulletList [''Python 3.8 or higher'', ''Google Colab (recommended) or Jupyter Notebook'', ''16GB RAM (for large CSV processing)''] True,
      ChapterTitle ''Installation'' 2,
      SetFont ''Courier'' [] 9,
      SetFillColor 245 245 245,
      MultiCellCall 0 6 ''pip install pandas numpy matplotlib seaborn plotly prophet scikit-learn kagglehub'' True,
      Ln (Some 3),
      ChapterTitle ''Execution Steps'' 2,
      NumberedList [''Download Dataset: Automatically via KaggleHub'', ''Phase 1: Data Loading & Cleaning'', ''Phase 2: ABC Analysis'', ''Phase 2.2: Demand Forecasting'', ''Phase 2.3: Reorder Point Analysis'', ''Phase 2.4: Lead Time Analysis''],
      ChapterTitle ''Output Files'' 2,
      BulletList [''ABC_Analysis_Results.csv'', ''Reorder_Point_Analysis.csv'', ''Vendor_Performance_Scorecard.csv'', ''AClass_Vendor_Analysis.csv'', ''Demand_Forecast_Detailed.csv''] True]"

definition section_9 :: "call list" where
  "section_9 =
     [AddPage,
      ChapterTitle ''9. Conclusion'' 1,
      ChapterBody ''This analysis transformed Slooze's raw transactional data into actionable inventory intelligence. Through ABC classification, we identified that 20% of products drive 80% of revenue - yet these critical items rely on variable suppliers, creating significant supply chain vulnerability.'',
      ChapterBody ''The reorder point system provides data-driven triggers for procurement, while vendor analysis reveals $85 million in spend with suboptimal suppliers. By implementing the dual-sourcing and safety stock recommendations, Slooze can protect high-revenue streams while optimizing working capital across the portfolio.'',
      ChapterTitle ''Key Deliverables Provided'' 2,
      BulletList [''Automated data pipeline with KaggleHub integration'', ''Statistical product classification (ABC Analysis)'', ''Predictive demand models with uncertainty quantification'', ''Operational reorder triggers with safety stock buffers'', ''Strategic vendor scorecards with risk classification''] True,
      KeyFindingBox ''Final Note'' ''All code is modular, documented, and ready for production deployment. The analysis framework can be extended to include additional data sources and more sophisticated forecasting models as the data infrastructure matures.'',
      SetY (- 30),
      SetFont ''Arial'' ''I'' 10,
      SetTextColor 128 128 128,
      CellCall 0 (Some 10) ''--- End of Documentation ---'' 0 0 ''C'' False]"

definition slooze_calls :: "string \<Rightarrow> call list" where
  "slooze_calls month_year =
     cover_page month_year @ table_of_contents @ section_1 @ section_2 @ section_3 @
     section_4 @ section_5 @ section_6 @ section_7 @ section_8 @ section_9"

section \<open>The script as a process\<close>

text \<open>
  What the script finds when it runs: whether the package \<^verbatim>\<open>fpdf\<close> can be
  imported, whether the output file can be written, the two readings of the clock
  (formatted), and the working directory. What it leaves: the lines printed to standard
  output and the files written. The command line is passed to \<open>script\<close> as well; the
  source never reads it.
\<close>

record env =
  fpdf_installed :: bool
  writable :: bool
  month_year_now :: string
  timestamp_now :: string
  cwd :: string

record world =
  stdout :: "string list"
  files :: "(string \<times> pdf) list"

definition print :: "string \<Rightarrow> world \<Rightarrow> world" where
  "print txt w = w\<lparr>stdout := stdout w @ [txt]\<rparr>"

definition import_fpdf :: "env \<Rightarrow> exn option" where
  "import_fpdf E = (if fpdf_installed E then None else Some ImportError)"

definition abspath :: "env \<Rightarrow> string \<Rightarrow> string" where
  "abspath E path = cwd E @ ''/'' @ path"

text \<open>
  \<^verbatim>\<open>pdf.output(name)\<close> closes the document and writes the file, or raises when
  the file cannot be written.
\<close>

definition output_pdf :: "string \<Rightarrow> env \<Rightarrow> pdf \<Rightarrow> world \<Rightarrow> exn option \<times> world" where
  "output_pdf name E s w =
     (if writable E then (None, w\<lparr>files := files w @ [(name, close s)]\<rparr>)
      else (Some OSError, w))"

definition create_slooze_documentation :: "layout \<Rightarrow> env \<Rightarrow> world \<Rightarrow> (exn + string) \<times> world" where
  "create_slooze_documentation L E w =
     (case run L (slooze_calls (month_year_now E)) FPDF_init of
        Inl e \<Rightarrow> (Inl e, w)
      | Inr pdf \<Rightarrow>
          (let output_filename = ''Slooze_Analysis_Documentation_FPDF.pdf''
           in (case output_pdf output_filename E pdf w of
                 (Some e, w) \<Rightarrow> (Inl e, w)
               | (None, w) \<Rightarrow>
                   (let w = print (replicate 60 CHR ''='') w;
                        w = print ''PDF GENERATED SUCCESSFULLY!'' w;
                        w = print (replicate 60 CHR ''='') w;
                        w = print (''Filename: '' @ output_filename) w;
                        w = print (''Pages: '' @ str_nat (page_no (close pdf))) w;
                        w = print (''Generated: '' @ timestamp_now E) w;
                        w = print (replicate 60 CHR ''='') w
                    in (Inr output_filename, w)))))"

text \<open>
  The module from top to bottom, run as \<^verbatim>\<open>__main__\<close>: the import of line 21,
  then the banner, the guarded import, the generation and the last line of the report.
  The result is the exception that ends the run, if any.
\<close>

definition script :: "layout \<Rightarrow> env \<Rightarrow> string list \<Rightarrow> world \<Rightarrow> exn option \<times> world" where
  "script L E argv w =
     (case import_fpdf E of
        Some e \<Rightarrow> (Some e, w)
      | None \<Rightarrow>
          (let w = print (CHR 0x0A # replicate 60 CHR ''='') w;
               w = print ''SLOOZE DATA SCIENCE CHALLENGE - PDF DOCUMENTATION GENERATOR'' w;
               w = print (replicate 60 CHR ''='' @ [CHR 0x0A]) w
           in (case import_fpdf E of
                 Some e \<Rightarrow>
                   (let w = print ''ERROR: fpdf2 is not installed.'' w;
                        w = print ''Please run: pip install fpdf2'' w
                    in (Some (SystemExit 1), w))
               | None \<Rightarrow>
                   (case create_slooze_documentation L E w of
                      (Inl e, w) \<Rightarrow> (Some e, w)
                    | (Inr output_file, w) \<Rightarrow>
                        (None, print (CHR 0x0A # ''Documentation saved to: '' @
                                        abspath E output_file) w)))))"

text \<open>
  The exit status of the interpreter: 0 after a normal end, the code of
  \<^verbatim>\<open>exit(code)\<close>, and 1 after any other exception that nothing caught (its
  traceback goes to standard error).
\<close>

definition exit_status :: "exn option \<Rightarrow> nat" where
  "exit_status r = (case r of None \<Rightarrow> 0 | Some (SystemExit n) \<Rightarrow> n | Some e \<Rightarrow> 1)"

definition example_env :: env where
  "example_env =
     \<lparr>fpdf_installed = True, writable = True, month_year_now = ''February 2026'',
      timestamp_now = ''2026-02-01 12:00:00'', cwd = ''/content''\<rparr>"

text \<open>
  A call that cannot raise: every call but a \<^verbatim>\<open>create_table\<close> whose lookups
  would leave the list of column widths.
\<close>

fun call_fits :: "call \<Rightarrow> bool" where
  "call_fits (CreateTable headers data col_widths) =
     table_fits headers data (widths_used headers col_widths)"
| "call_fits c = True"

section \<open>Facts about the drawing primitives\<close>

lemmas setters = set_font_def set_text_color_def set_draw_color_def set_fill_color_def
  set_line_width_def set_auto_page_break_def set_y_def set_xy_def ln_pdf_def

lemmas chrome_defs = header_def footer_def page_no_def get_y_def print_cell_def put_def
  line_def restore_def Let_def

lemma add_page_frame:
  "cur_layer (add_page s) = Body"
  "page (add_page s) = page s + 1"
  "cur_y (add_page s) = (if page s = 0 then t_margin else t_margin + 8)"
  "cur_font (add_page s) = cur_font s"
  "text_color (add_page s) = text_color s"
  "draw_color (add_page s) = draw_color s"
  "fill_color (add_page s) = fill_color s"
  "line_width (add_page s) = line_width s"
  "auto_page_break (add_page s) = auto_page_break s"
  "b_margin (add_page s) = b_margin s"
  by (simp_all add: add_page_def chrome_defs setters)

lemma add_page_body: "body_items (add_page s) = body_items s"
  by (simp add: body_items_def add_page_def chrome_defs setters)

lemma pbin_frame:
  "cur_layer (page_break_if_needed h s) = cur_layer s"
  "cur_font (page_break_if_needed h s) = cur_font s"
  "text_color (page_break_if_needed h s) = text_color s"
  "draw_color (page_break_if_needed h s) = draw_color s"
  "fill_color (page_break_if_needed h s) = fill_color s"
  "line_width (page_break_if_needed h s) = line_width s"
  "auto_page_break (page_break_if_needed h s) = auto_page_break s"
  "b_margin (page_break_if_needed h s) = b_margin s"
  by (simp_all add: page_break_if_needed_def will_page_break_def add_page_frame)

lemma pbin_body: "body_items (page_break_if_needed h s) = body_items s"
  by (simp add: page_break_if_needed_def add_page_body)

lemma put_frame:
  "cur_layer (put sh s) = cur_layer s"
  "cur_font (put sh s) = cur_font s"
  "text_color (put sh s) = text_color s"
  "draw_color (put sh s) = draw_color s"
  "fill_color (put sh s) = fill_color s"
  "line_width (put sh s) = line_width s"
  "auto_page_break (put sh s) = auto_page_break s"
  "b_margin (put sh s) = b_margin s"
  "page (put sh s) = page s"
  "cur_y (put sh s) = cur_y s"
  "lasth (put sh s) = lasth s"
  by (simp_all add: put_def)

lemma put_marks:
  "cur_layer s = Body \<Longrightarrow> body_marks (put sh s) = body_marks s @ [(cur_font s, sh)]"
  by (simp add: body_marks_def body_items_def put_def)

lemma cell_frame:
  "cur_layer (cell w h txt b l a f s) = cur_layer s"
  "cur_font (cell w h txt b l a f s) = cur_font s"
  "text_color (cell w h txt b l a f s) = text_color s"
  "draw_color (cell w h txt b l a f s) = draw_color s"
  "fill_color (cell w h txt b l a f s) = fill_color s"
  "line_width (cell w h txt b l a f s) = line_width s"
  "auto_page_break (cell w h txt b l a f s) = auto_page_break s"
  "b_margin (cell w h txt b l a f s) = b_margin s"
  "lasth (cell w h txt b l a f s) = h"
  "cur_y (cell w h txt b l a f s) =
     cur_y (page_break_if_needed h s) + (if 0 < l then h else 0)"
  by (simp_all add: cell_def print_cell_def Let_def put_frame pbin_frame)

lemma cell_marks:
  "cur_layer s = Body \<Longrightarrow>
   body_marks (cell w h txt b l a f s) = body_marks s @ [(cur_font s, Cell w h txt b l a f)]"
  using put_marks [of "page_break_if_needed h s" "Cell w h txt b l a f"]
  by (simp add: cell_def print_cell_def Let_def body_marks_def body_items_def pbin_frame pbin_body [unfolded body_items_def])

lemma feed_lines_frame:
  "cur_layer (feed_lines n h s) = cur_layer s"
  "cur_font (feed_lines n h s) = cur_font s"
  "text_color (feed_lines n h s) = text_color s"
  "draw_color (feed_lines n h s) = draw_color s"
  "fill_color (feed_lines n h s) = fill_color s"
  "line_width (feed_lines n h s) = line_width s"
  "auto_page_break (feed_lines n h s) = auto_page_break s"
  "b_margin (feed_lines n h s) = b_margin s"
  by (induction n arbitrary: s; simp add: Let_def pbin_frame)+

lemma body_items_upd [simp]:
  "body_items (s\<lparr>cur_y := v\<rparr>) = body_items s"
  "body_items (s\<lparr>lasth := v\<rparr>) = body_items s"
  by (simp_all add: body_items_def)

lemma feed_lines_body: "body_items (feed_lines n h s) = body_items s"
  by (induction n arbitrary: s) (simp_all add: Let_def pbin_body)

lemma multi_cell_frame:
  "cur_layer (multi_cell L w h txt f s) = cur_layer s"
  "cur_font (multi_cell L w h txt f s) = cur_font s"
  "text_color (multi_cell L w h txt f s) = text_color s"
  "draw_color (multi_cell L w h txt f s) = draw_color s"
  "fill_color (multi_cell L w h txt f s) = fill_color s"
  "line_width (multi_cell L w h txt f s) = line_width s"
  "auto_page_break (multi_cell L w h txt f s) = auto_page_break s"
  "b_margin (multi_cell L w h txt f s) = b_margin s"
  "lasth (multi_cell L w h txt f s) = h"
  by (simp_all add: multi_cell_def Let_def feed_lines_frame put_frame pbin_frame split: nat.splits)

lemma multi_cell_marks:
  "cur_layer s = Body \<Longrightarrow>
   body_marks (multi_cell L w h txt f s) = body_marks s @ [(cur_font s, MultiCell w h txt f)]"
  using put_marks [of "page_break_if_needed h s" "MultiCell w h txt f"]
  by (simp add: multi_cell_def Let_def body_marks_def feed_lines_body pbin_frame pbin_body split: nat.splits)

section \<open>The table renderer\<close>

lemma body_shapes_marks: "body_shapes s = map snd (body_marks s)"
  by (simp add: body_shapes_def body_marks_def comp_def)

lemma header_cells_ok:
  "i + length hs \<le> length ws \<Longrightarrow> cur_layer s = Body \<Longrightarrow>
   \<exists>s'. header_cells ws i hs s = Inr s' \<and> cur_layer s' = Body \<and> cur_font s' = cur_font s \<and>
     body_marks s' = body_marks s @ map (\<lambda>(w, h). (cur_font s, Cell w 8 h 1 0 ''L'' True)) (zip (drop i ws) hs)"
proof (induction hs arbitrary: i s)
  case Nil
  then show ?case by simp
next
  case (Cons h hs)
  let ?s1 = "cell (ws ! i) 8 h 1 0 ''L'' True s"
  from Cons.prems have i: "i < length ws" and rest: "Suc i + length hs \<le> length ws" by simp_all
  have l1: "cur_layer ?s1 = Body" using Cons.prems by (simp add: cell_frame)
  from Cons.IH [OF rest l1] obtain s' where s':
    "header_cells ws (Suc i) hs ?s1 = Inr s'" "cur_layer s' = Body" "cur_font s' = cur_font ?s1"
    "body_marks s' = body_marks ?s1 @ map (\<lambda>(w, h). (cur_font ?s1, Cell w 8 h 1 0 ''L'' True)) (zip (drop (Suc i) ws) hs)"
    by blast
  have d: "drop i ws = ws ! i # drop (Suc i) ws" using i by (simp add: Cons_nth_drop_Suc)
  show ?case using s' i Cons.prems(2)
    by (simp add: py_index_def cell_frame cell_marks d)
qed

lemma row_cells_ok:
  "i + length cs \<le> length ws \<Longrightarrow> cur_layer s = Body \<Longrightarrow>
   \<exists>s'. row_cells ws i cs s = Inr s' \<and> cur_layer s' = Body \<and> cur_font s' = cur_font s \<and>
     body_marks s' = body_marks s @ map (\<lambda>(w, c). (cur_font s, Cell w 7 c 1 0 ''L'' False)) (zip (drop i ws) cs)"
proof (induction cs arbitrary: i s)
  case Nil
  then show ?case by simp
next
  case (Cons c cs)
  let ?s1 = "cell (ws ! i) 7 c 1 0 ''L'' False s"
  from Cons.prems have i: "i < length ws" and rest: "Suc i + length cs \<le> length ws" by simp_all
  have l1: "cur_layer ?s1 = Body" using Cons.prems by (simp add: cell_frame)
  from Cons.IH [OF rest l1] obtain s' where s':
    "row_cells ws (Suc i) cs ?s1 = Inr s'" "cur_layer s' = Body" "cur_font s' = cur_font ?s1"
    "body_marks s' = body_marks ?s1 @ map (\<lambda>(w, c). (cur_font ?s1, Cell w 7 c 1 0 ''L'' False)) (zip (drop (Suc i) ws) cs)"
    by blast
  have d: "drop i ws = ws ! i # drop (Suc i) ws" using i by (simp add: Cons_nth_drop_Suc)
  show ?case using s' i Cons.prems(2)
    by (simp add: py_index_def cell_frame cell_marks d)
qed

lemma body_marks_upd [simp]:
  "body_marks (s\<lparr>cur_y := v\<rparr>) = body_marks s"
  "body_marks (s\<lparr>lasth := v\<rparr>) = body_marks s"
  "body_marks (s\<lparr>cur_font := fo\<rparr>) = body_marks s"
  "body_marks (s\<lparr>text_color := c\<rparr>) = body_marks s"
  "body_marks (s\<lparr>draw_color := c\<rparr>) = body_marks s"
  "body_marks (s\<lparr>fill_color := c\<rparr>) = body_marks s"
  "body_marks (s\<lparr>line_width := v\<rparr>) = body_marks s"
  by (simp_all add: body_marks_def body_items_def)

lemma data_rows_ok:
  "list_all (\<lambda>row. length row \<le> length ws) data \<Longrightarrow> cur_layer s = Body \<Longrightarrow>
   \<exists>s'. data_rows ws data s = Inr s' \<and> cur_layer s' = Body \<and> cur_font s' = cur_font s \<and>
     body_marks s' = body_marks s @
       concat (map (\<lambda>row. map (\<lambda>(w, c). (cur_font s, Cell w 7 c 1 0 ''L'' False)) (zip ws row)) data)"
proof (induction data arbitrary: s)
  case Nil
  then show ?case by simp
next
  case (Cons row data)
  from Cons.prems have r: "0 + length row \<le> length ws" and rest: "list_all (\<lambda>row. length row \<le> length ws) data"
    by simp_all
  from row_cells_ok [OF r Cons.prems(2)] obtain s1 where s1:
    "row_cells ws 0 row s = Inr s1" "cur_layer s1 = Body" "cur_font s1 = cur_font s"
    "body_marks s1 = body_marks s @ map (\<lambda>(w, c). (cur_font s, Cell w 7 c 1 0 ''L'' False)) (zip (drop 0 ws) row)"
    by blast
  let ?s2 = "ln_pdf None s1"
  have l2: "cur_layer ?s2 = Body" using s1 by (simp add: ln_pdf_def)
  from Cons.IH [OF rest l2] obtain s' where s':
    "data_rows ws data ?s2 = Inr s'" "cur_layer s' = Body" "cur_font s' = cur_font ?s2"
    "body_marks s' = body_marks ?s2 @
       concat (map (\<lambda>row. map (\<lambda>(w, c). (cur_font ?s2, Cell w 7 c 1 0 ''L'' False)) (zip ws row)) data)"
    by blast
  show ?case using s1 s' by (simp add: ln_pdf_def)
qed

lemma header_cells_result:
  "i \<le> length ws \<Longrightarrow>
   (case header_cells ws i hs s of
      Inl e \<Rightarrow> e = IndexError \<and> length ws < i + length hs
    | Inr s' \<Rightarrow> i + length hs \<le> length ws)"
proof (induction hs arbitrary: i s)
  case Nil
  then show ?case by simp
next
  case (Cons h hs)
  show ?case
  proof (cases "i < length ws")
    case True
    then have "Suc i \<le> length ws" by simp
    from Cons.IH [OF this, of "cell (ws ! i) 8 h 1 0 ''L'' True s"] True
    show ?thesis by (simp add: py_index_def split: sum.splits)
  next
    case False
    then show ?thesis by (simp add: py_index_def)
  qed
qed

lemma row_cells_result:
  "i \<le> length ws \<Longrightarrow>
   (case row_cells ws i cs s of
      Inl e \<Rightarrow> e = IndexError \<and> length ws < i + length cs
    | Inr s' \<Rightarrow> i + length cs \<le> length ws)"
proof (induction cs arbitrary: i s)
  case Nil
  then show ?case by simp
next
  case (Cons c cs)
  show ?case
  proof (cases "i < length ws")
    case True
    then have "Suc i \<le> length ws" by simp
    from Cons.IH [OF this, of "cell (ws ! i) 7 c 1 0 ''L'' False s"] True
    show ?thesis by (simp add: py_index_def split: sum.splits)
  next
    case False
    then show ?thesis by (simp add: py_index_def)
  qed
qed

lemma data_rows_result:
  "(case data_rows ws data s of
      Inl e \<Rightarrow> e = IndexError \<and> \<not> list_all (\<lambda>row. length row \<le> length ws) data
    | Inr s' \<Rightarrow> list_all (\<lambda>row. length row \<le> length ws) data)"
proof (induction data arbitrary: s)
  case Nil
  then show ?case by simp
next
  case (Cons row data)
  have r: "case row_cells ws 0 row s of
      Inl e \<Rightarrow> e = IndexError \<and> length ws < 0 + length row
    | Inr s' \<Rightarrow> 0 + length row \<le> length ws"
    by (rule row_cells_result) simp
  show ?case
  proof (cases "row_cells ws 0 row s")
    case (Inl e)
    with r show ?thesis by simp
  next
    case (Inr s1)
    with r Cons.IH [of "ln_pdf None s1"] show ?thesis by (simp split: sum.splits)
  qed
qed

lemma create_table_result:
  "(case create_table headers data col_widths s of
      Inl e \<Rightarrow> e = IndexError \<and> \<not> table_fits headers data (widths_used headers col_widths)
    | Inr s' \<Rightarrow> table_fits headers data (widths_used headers col_widths))"
proof -
  let ?ws = "widths_used headers col_widths"
  let ?s1 = "set_text_color 51 51 51 (set_fill_color 248 249 250 (set_font ''Arial'' ''B'' 9 s))"
  have h: "case header_cells ?ws 0 headers ?s1 of
      Inl e \<Rightarrow> e = IndexError \<and> length ?ws < 0 + length headers
    | Inr s' \<Rightarrow> 0 + length headers \<le> length ?ws"
    by (rule header_cells_result) simp
  show ?thesis
  proof (cases "header_cells ?ws 0 headers ?s1")
    case (Inl e)
    with h show ?thesis
      by (simp add: create_table_def widths_used_def table_fits_def Let_def)
  next
    case (Inr s2)
    let ?s3 = "set_fill_color 255 255 255 (set_font ''Arial'' [] 9 (ln_pdf None s2))"
    from Inr h data_rows_result [of ?ws data ?s3] show ?thesis
      by (simp add: create_table_def widths_used_def table_fits_def Let_def split: sum.splits)
  qed
qed

lemma create_table_marks:
  assumes "table_fits headers data ws" and "cur_layer s = Body"
  shows "\<exists>s'. create_table headers data (Some ws) s = Inr s' \<and>
     body_shapes s' = body_shapes s @
       map (\<lambda>(w, h). Cell w 8 h 1 0 ''L'' True) (zip ws headers) @
       concat (map (\<lambda>row. map (\<lambda>(w, c). Cell w 7 c 1 0 ''L'' False) (zip ws row)) data)"
proof -
  let ?s1 = "set_text_color 51 51 51 (set_fill_color 248 249 250 (set_font ''Arial'' ''B'' 9 s))"
  have l1: "cur_layer ?s1 = Body" using assms(2) by (simp add: setters)
  have h: "0 + length headers \<le> length ws" using assms(1) by (simp add: table_fits_def)
  from header_cells_ok [OF h l1] obtain s2 where s2:
    "header_cells ws 0 headers ?s1 = Inr s2" "cur_layer s2 = Body"
    "body_marks s2 = body_marks ?s1 @
       map (\<lambda>(w, h). (cur_font ?s1, Cell w 8 h 1 0 ''L'' True)) (zip (drop 0 ws) headers)"
    by blast
  let ?s3 = "set_fill_color 255 255 255 (set_font ''Arial'' [] 9 (ln_pdf None s2))"
  have l3: "cur_layer ?s3 = Body" using s2 by (simp add: setters)
  have d: "list_all (\<lambda>row. length row \<le> length ws) data" using assms(1) by (simp add: table_fits_def)
  from data_rows_ok [OF d l3] obtain s4 where s4:
    "data_rows ws data ?s3 = Inr s4"
    "body_marks s4 = body_marks ?s3 @
       concat (map (\<lambda>row. map (\<lambda>(w, c). (cur_font ?s3, Cell w 7 c 1 0 ''L'' False)) (zip ws row)) data)"
    by blast
  have "create_table headers data (Some ws) s = Inr (ln_pdf (Some 3) s4)"
    using s2 s4 by (simp add: create_table_def Let_def)
  moreover have "body_shapes (ln_pdf (Some 3) s4) = body_shapes s @
       map (\<lambda>(w, h). Cell w 8 h 1 0 ''L'' True) (zip ws headers) @
       concat (map (\<lambda>row. map (\<lambda>(w, c). Cell w 7 c 1 0 ''L'' False) (zip ws row)) data)"
    using s2(3) s4(2)
    by (simp add: body_shapes_marks setters map_concat comp_def case_prod_unfold)
  ultimately show ?thesis by blast
qed

lemma zip_replicate_left:
  "length xs \<le> n \<Longrightarrow> map f (zip (replicate n a) xs) = map (\<lambda>x. f (a, x)) xs"
proof (induction xs arbitrary: n)
  case Nil
  then show ?case by simp
next
  case (Cons x xs)
  then obtain m where "n = Suc m" and "length xs \<le> m"
    by (cases n) simp_all
  with Cons.IH [of m] show ?case by simp
qed

text \<open>
  \<^bold>\<open>Claim C3\<close>, as the script has it. When \<^verbatim>\<open>create_table\<close> is called without
  column widths, every header cell and every data cell is drawn 40 wide: the default is
  the list \<^verbatim>\<open>[40] * len(headers)\<close>, a fixed width for each column whatever the
  width of the page content and the number of columns. (The rows here have no more
  cells than there are headers, so that the table is drawn to its end.)
\<close>

theorem create_table_default_widths:
  assumes "cur_layer s = Body"
    and "list_all (\<lambda>row. length row \<le> length headers) data"
  shows "\<exists>s'. create_table headers data None s = Inr s' \<and>
     body_shapes s' = body_shapes s @
       map (\<lambda>h. Cell 40 8 h 1 0 ''L'' True) headers @
       concat (map (map (\<lambda>c. Cell 40 7 c 1 0 ''L'' False)) data)"
proof -
  let ?ws = "default_col_widths headers"
  have same: "create_table headers data None s = create_table headers data (Some ?ws) s"
    by (simp add: create_table_def)
  have fits: "table_fits headers data ?ws"
    using assms(2) by (simp add: table_fits_def default_col_widths_def)
  have rows: "map (\<lambda>row. map (\<lambda>(w, c). Cell w 7 c 1 0 ''L'' False) (zip ?ws row)) data =
      map (map (\<lambda>c. Cell 40 7 c 1 0 ''L'' False)) data"
    using assms(2) by (induction data) (simp_all add: default_col_widths_def zip_replicate_left)
  have hdrs: "map (\<lambda>(w, h). Cell w 8 h 1 0 ''L'' True) (zip ?ws headers) =
      map (\<lambda>h. Cell 40 8 h 1 0 ''L'' True) headers"
    by (simp add: default_col_widths_def zip_replicate_left)
  from create_table_marks [OF fits assms(1)] show ?thesis
    by (simp only: same rows hdrs)
qed

theorem create_table_default_widths_witness:
  "\<exists>s'. create_table [''Metric'', ''Value''] [[''Unique Products'', ''7,658'']] None page_one = Inr s' \<and>
     body_shapes s' =
       [Cell 40 8 ''Metric'' 1 0 ''L'' True, Cell 40 8 ''Value'' 1 0 ''L'' True,
        Cell 40 7 ''Unique Products'' 1 0 ''L'' False, Cell 40 7 ''7,658'' 1 0 ''L'' False]"
proof -
  have l: "cur_layer page_one = Body"
    by (simp add: page_one_def add_page_frame)
  have b: "body_shapes page_one = []"
    by (simp add: page_one_def body_shapes_def add_page_body)
       (simp add: body_items_def set_auto_page_break_def FPDF_init_def)
  from create_table_default_widths [of page_one "[''Metric'', ''Value'']"
      "[[''Unique Products'', ''7,658'']]", OF l]
  show ?thesis by (simp add: b)
qed

text \<open>
  Claim C3 as the specification states it fails: with the two headers of the summary
  table, an equal share of the content width would be 95 for each column; the default
  widths are 40 and 40.
\<close>

theorem default_col_widths_counterexample:
  "default_col_widths [''Metric'', ''Value''] \<noteq>
     replicate (length [''Metric'', ''Value''])
       (content_width / real (length [''Metric'', ''Value'']))"
  by (simp add: default_col_widths_def content_width_def page_w_def l_margin_def r_margin_def)

text \<open>
  \<^bold>\<open>Claim C9\<close>, as the script has it. \<^verbatim>\<open>create_table\<close> returns exactly when
  there are at least as many column widths as headers and no data row has more cells than
  there are column widths; otherwise it raises \<^verbatim>\<open>IndexError\<close>. With the default
  widths (one for each header) the condition is that no row has more cells than there are
  headers.
\<close>

theorem create_table_completes_iff:
  "((\<exists>s'. create_table headers data col_widths s = Inr s') =
      table_fits headers data (widths_used headers col_widths)) \<and>
   ((create_table headers data col_widths s = Inl IndexError) =
      (\<not> table_fits headers data (widths_used headers col_widths))) \<and>
   table_fits headers data (widths_used headers None) =
      list_all (\<lambda>row. length row \<le> length headers) data"
  using create_table_result [of headers data col_widths s]
  by (cases "create_table headers data col_widths s")
     (auto simp: table_fits_def widths_used_def default_col_widths_def)

theorem create_table_completes_iff_witness:
  "(\<exists>s'. create_table [''A'', ''B''] [[''x''], [''y'', ''z'']] None page_one = Inr s') \<and>
   create_table [''A'', ''B''] [[''x'', ''y'', ''z'']] None page_one = Inl IndexError"
  using create_table_completes_iff [of "[''A'', ''B'']" "[[''x''], [''y'', ''z'']]" None page_one]
    create_table_completes_iff [of "[''A'', ''B'']" "[[''x'', ''y'', ''z'']]" None page_one]
  by (simp add: table_fits_def widths_used_def default_col_widths_def)

text \<open>
  Claim C9 as stated fails where the caller gives fewer widths than headers: the only
  data row has one cell and there is one column width, so every row fits, and still the
  second header's lookup \<^verbatim>\<open>col_widths[1]\<close> is out of range.
\<close>

theorem create_table_short_widths_counterexample:
  "list_all (\<lambda>row. length row \<le> length [40 :: real]) [[''x'']] \<and>
   create_table [''A'', ''B''] [[''x'']] (Some [40]) page_one = Inl IndexError"
  by (simp add: create_table_def py_index_def Let_def)

lemma cell_in_chrome:
  "cur_layer s \<noteq> Body \<Longrightarrow> cell w h txt b l a f s = print_cell w h txt b l a f s"
  by (simp add: cell_def page_break_if_needed_def will_page_break_def)

lemma pbin_cur_y_cong:
  "auto_page_break s' = auto_page_break s \<Longrightarrow> cur_layer s' = cur_layer s \<Longrightarrow>
   b_margin s' = b_margin s \<Longrightarrow> cur_y s' = cur_y s \<Longrightarrow> page s' = page s \<Longrightarrow>
   cur_y (page_break_if_needed h s') = cur_y (page_break_if_needed h s)"
  by (simp add: page_break_if_needed_def will_page_break_def page_break_trigger_def add_page_frame)

lemma line_marks:
  "cur_layer s = Body \<Longrightarrow> body_marks (line x1 y1 x2 y2 s) = body_marks s @ [(cur_font s, Line x1 y1 x2 y2)]"
  by (simp add: line_def put_marks)


lemma line_frame:
  "cur_layer (line x1 y1 x2 y2 s) = cur_layer s"
  "cur_y (line x1 y1 x2 y2 s) = cur_y s"
  "cur_font (line x1 y1 x2 y2 s) = cur_font s"
  by (simp_all add: line_def put_frame)


lemma page_one_facts:
  "cur_layer page_one = Body" "body_marks page_one = []" "cur_y page_one = 10"
  "cur_font page_one = \<lparr>font_family = [], font_style = [], font_size_pt = 12\<rparr>"
  by (simp_all add: page_one_def add_page_frame body_marks_def add_page_body)
     (simp_all add: body_items_def set_auto_page_break_def FPDF_init_def t_margin_def)

lemma page_one_margin: "b_margin page_one = 20"
  by (simp add: page_one_def add_page_frame set_auto_page_break_def)

section \<open>Titles\<close>

lemma chapter_title_y:
  "cur_y (chapter_title title level s) =
     cur_y (page_break_if_needed (title_cell_h level) s) + title_advance level"
proof -
  have c: "\<And>f c h. cur_y (page_break_if_needed h (s\<lparr>cur_font := f, text_color := c\<rparr>)) =
      cur_y (page_break_if_needed h s)"
    by (rule pbin_cur_y_cong) simp_all
  show ?thesis
    by (simp add: chapter_title_def title_cell_h_def title_advance_def Let_def setters
        cell_frame line_frame get_y_def c)
qed

lemma chapter_title_shapes:
  "cur_layer s = Body \<Longrightarrow>
   body_shapes (chapter_title title level s) =
     body_shapes s @ Cell 0 (title_cell_h level) title 0 1 ''L'' False #
       (if level = 1
        then [Line 15 (cur_y (page_break_if_needed 12 s) + 12) 195
                (cur_y (page_break_if_needed 12 s) + 12)]
        else [])"
proof -
  have c: "\<And>f c h. cur_y (page_break_if_needed h (s\<lparr>cur_font := f, text_color := c\<rparr>)) =
      cur_y (page_break_if_needed h s)"
    by (rule pbin_cur_y_cong) simp_all
  assume "cur_layer s = Body"
  then show ?thesis
    by (simp add: chapter_title_def title_cell_h_def Let_def setters body_shapes_marks
        cell_frame cell_marks line_marks get_y_def c)
qed

text \<open>
  \<^bold>\<open>Claim C5\<close>, as the script has it. A title takes a vertical space that depends on
  its level only, 17 for level 1, 12 for level 2 and 9 for any other level, whatever the
  title and the state: the cursor ends that much below the place where the library puts
  the title's cell, which is the cursor, or the top of a new page (below its header) when
  the cell does not fit above the bottom margin. When no page break is taken the cursor
  advances by exactly that amount. Level 1 takes more than level 2, and level 2 more than
  level 3. The title draws its cell, and with level 1, and only then, the rule under it.
\<close>

theorem chapter_title_advance:
  "cur_y (chapter_title title level s) =
     cur_y (page_break_if_needed (title_cell_h level) s) + title_advance level \<and>
   (\<not> will_page_break s (title_cell_h level) \<longrightarrow>
      cur_y (chapter_title title level s) - cur_y s = title_advance level) \<and>
   title_advance 3 < title_advance 2 \<and> title_advance 2 < title_advance 1 \<and>
   (cur_layer s = Body \<longrightarrow>
      body_shapes (chapter_title title level s) =
        body_shapes s @ Cell 0 (title_cell_h level) title 0 1 ''L'' False #
          (if level = 1
           then [Line 15 (cur_y (page_break_if_needed 12 s) + 12) 195
                   (cur_y (page_break_if_needed 12 s) + 12)]
           else []))"
  using chapter_title_y [of title level s] chapter_title_shapes [of s title level]
  by (simp add: page_break_if_needed_def title_advance_def)

theorem chapter_title_advance_witness:
  "cur_y (chapter_title ''1. Executive Summary'' 1 page_one) - cur_y page_one = 17 \<and>
   cur_y (chapter_title ''Key Deliverables'' 2 page_one) - cur_y page_one = 12 \<and>
   cur_y (chapter_title ''Data Cleaning Steps'' 3 page_one) - cur_y page_one = 9 \<and>
   body_shapes (chapter_title ''1. Executive Summary'' 1 page_one) =
     [Cell 0 12 ''1. Executive Summary'' 0 1 ''L'' False, Line 15 22 195 22] \<and>
   body_shapes (chapter_title ''Key Deliverables'' 2 page_one) =
     [Cell 0 10 ''Key Deliverables'' 0 1 ''L'' False] \<and>
   cur_y (page_break_if_needed 12 (set_y 270 page_one)) = 18 \<and>
   cur_y (chapter_title ''9. Conclusion'' 1 (set_y 270 page_one)) = 35"
proof -
  have l: "cur_layer page_one = Body"
    by (simp add: page_one_def add_page_frame)
  have b: "body_shapes page_one = []"
    by (simp add: page_one_def body_shapes_def add_page_body)
       (simp add: body_items_def set_auto_page_break_def FPDF_init_def)
  have y: "cur_y page_one = 10"
    by (simp add: page_one_def add_page_frame set_auto_page_break_def FPDF_init_def t_margin_def)
  have n: "\<not> will_page_break page_one h" if "h \<le> 12" for h
    using that y
    by (simp add: will_page_break_def page_break_trigger_def page_h_def page_one_def
        add_page_frame set_auto_page_break_def FPDF_init_def)
  have k: "cur_y (page_break_if_needed 12 (set_y 270 page_one)) = 18"
    by (simp add: page_break_if_needed_def will_page_break_def page_break_trigger_def
        page_h_def add_page_frame set_y_def page_one_def set_auto_page_break_def
        FPDF_init_def t_margin_def)
  from chapter_title_advance [of "''1. Executive Summary''" 1 page_one]
    chapter_title_advance [of "''9. Conclusion''" 1 "set_y 270 page_one"]
    chapter_title_advance [of "''Key Deliverables''" 2 page_one]
    chapter_title_advance [of "''Data Cleaning Steps''" 3 page_one]
  show ?thesis
    using l b y k n [of 12] n [of 10] n [of 8]
    by (simp add: title_cell_h_def title_advance_def page_break_if_needed_def)
qed

text \<open>
  Claim C5 as stated fails where a title does not fit on the page. With the cursor at
  270 and the page break 20 above the bottom of the page (at 277), a title of level 1
  (a cell of height 12) starts a new page: the cursor ends at 35, an advance of - 235,
  while the same title at the top of a page advances the cursor by 17. The advance of the
  cursor is not a function of the level alone.
\<close>

theorem chapter_title_advance_counterexample:
  "cur_y (chapter_title ''9. Conclusion'' 1 (set_y 270 page_one)) -
     cur_y (set_y 270 page_one) = - 235 \<and>
   cur_y (chapter_title ''9. Conclusion'' 1 page_one) - cur_y page_one = 17 \<and>
   cur_y (chapter_title ''9. Conclusion'' 1 (set_y 270 page_one)) -
     cur_y (set_y 270 page_one) \<noteq>
   cur_y (chapter_title ''9. Conclusion'' 1 page_one) - cur_y page_one"
proof -
  have far: "cur_y (page_break_if_needed 12 (set_y 270 page_one)) = 18"
    by (simp add: page_break_if_needed_def will_page_break_def page_break_trigger_def
        page_h_def add_page_frame set_y_def page_one_def set_auto_page_break_def
        FPDF_init_def t_margin_def)
  have near: "cur_y (page_break_if_needed 12 page_one) = 10"
    by (simp add: page_break_if_needed_def will_page_break_def page_break_trigger_def
        page_h_def add_page_frame page_one_def set_auto_page_break_def
        FPDF_init_def t_margin_def)
  have a: "cur_y (chapter_title ''9. Conclusion'' 1 (set_y 270 page_one)) = 35"
    using chapter_title_y [of "''9. Conclusion''" 1 "set_y 270 page_one"] far
    by (simp add: title_cell_h_def title_advance_def)
  have b: "cur_y (chapter_title ''9. Conclusion'' 1 page_one) = 27"
    using chapter_title_y [of "''9. Conclusion''" 1 page_one] near
    by (simp add: title_cell_h_def title_advance_def)
  have c: "cur_y (set_y 270 page_one) = 270"
    by (simp add: set_y_def)
  show ?thesis
    by (simp add: a b c page_one_facts)
qed

section \<open>Callout boxes\<close>





section \<open>Bullet lists\<close>

lemma split_once_first:
  "sep \<in> set s \<Longrightarrow>
   split_once sep s = [takeWhile (\<lambda>c. c \<noteq> sep) s, tl (dropWhile (\<lambda>c. c \<noteq> sep) s)]"
  by (induction s) auto

lemma takeWhile_first:
  "c \<notin> set lab \<Longrightarrow> takeWhile (\<lambda>x. x \<noteq> c) (lab @ c # rest) = lab"
  by (induction lab) auto

lemma dropWhile_first:
  "c \<notin> set lab \<Longrightarrow> dropWhile (\<lambda>x. x \<noteq> c) (lab @ c # rest) = c # rest"
  by (induction lab) auto

lemma bullet_item_frame:
  "cur_layer (bullet_item L bp item s) = cur_layer s"
  "cur_font (bullet_item L bp item s) =
     (if bp \<and> CHR '':'' \<in> set item then regular_font else cur_font s)"
  by (simp_all add: bullet_item_def Let_def setters cell_frame multi_cell_frame regular_font_def)

lemma bullet_item_body_marks:
  assumes "cur_layer s = Body"
  shows "body_marks (bullet_item L bp item s) =
     body_marks s @
     [(cur_font s, Cell 5 (default_h L (cur_font s)) [] 0 0 [] False),
      (cur_font s, Cell 5 6 bullet 0 0 ''L'' False)] @
     (if bp \<and> CHR '':'' \<in> set item
      then [(bold_font, Cell (string_width L bold_font (label_of item @ '': '')) 6
                          (label_of item @ '':'') 0 0 [] False),
            (regular_font, MultiCell 0 6 (remainder_of item) False)]
      else [(cur_font s, MultiCell 0 6 item False)])"
proof (cases "bp \<and> CHR '':'' \<in> set item")
  case True
  then have parts: "split_once CHR '':'' item = [label_of item, remainder_of item]"
    by (simp add: split_once_first label_of_def remainder_of_def)
  show ?thesis using True assms
    by (simp add: bullet_item_def parts Let_def setters cell_frame cell_marks multi_cell_marks
        get_string_width_def bold_font_def regular_font_def)
next
  case False
  then have c: "(bp \<and> CHR '':'' \<in> set item) = False" by simp
  show ?thesis using assms
    by (simp add: bullet_item_def c Let_def cell_frame cell_marks multi_cell_marks)
qed

lemma bullet_items_body_marks:
  "cur_layer s = Body \<Longrightarrow> cur_font s = regular_font \<Longrightarrow>
   body_marks (bullet_items L bp items s) =
     body_marks s @ concat (map (bullet_item_marks L bp) items) \<and>
   cur_layer (bullet_items L bp items s) = Body"
proof (induction items arbitrary: s)
  case Nil
  then show ?case by simp
next
  case (Cons item items)
  let ?s1 = "bullet_item L bp item s"
  have l1: "cur_layer ?s1 = Body" using Cons.prems by (simp add: bullet_item_frame)
  have f1: "cur_font ?s1 = regular_font" using Cons.prems by (simp add: bullet_item_frame)
  have m1: "body_marks ?s1 = body_marks s @ bullet_item_marks L bp item"
    using Cons.prems by (simp add: bullet_item_body_marks bullet_item_marks_def)
  from Cons.IH [OF l1 f1] m1 show ?case by simp
qed

lemma no_second_break:
  assumes "t_margin + 8 + h \<le> page_h - b_margin s"
  shows "\<not> will_page_break (page_break_if_needed h s) h"
proof (cases "will_page_break s h")
  case True
  then have "page_break_if_needed h s = add_page s" by (simp add: page_break_if_needed_def)
  then show ?thesis using assms
    by (simp add: will_page_break_def page_break_trigger_def add_page_frame)
next
  case False
  then show ?thesis by (simp add: page_break_if_needed_def)
qed

lemma will_page_break_cong:
  "auto_page_break s' = auto_page_break s \<Longrightarrow> cur_layer s' = cur_layer s \<Longrightarrow>
   b_margin s' = b_margin s \<Longrightarrow> cur_y s' = cur_y s \<Longrightarrow>
   will_page_break s' h = will_page_break s h"
  by (simp add: will_page_break_def page_break_trigger_def)

lemma put_items:
  "cur_layer s = Body \<Longrightarrow>
   body_items (put sh s) = body_items s @
     [\<lparr>on_page = page s, at_y = cur_y s, origin = Body, in_font = cur_font s,
       in_text_color = text_color s, in_draw_color = draw_color s,
       in_fill_color = fill_color s, in_line_width = line_width s, shape_of = sh\<rparr>]"
  by (simp add: body_items_def put_def)

lemma body_items_place:
  "cur_layer s = Body \<Longrightarrow>
   map (\<lambda>d. (on_page d, at_y d)) (body_items (put sh s)) =
     map (\<lambda>d. (on_page d, at_y d)) (body_items s) @ [place s]"
  by (simp add: put_items place_def)

lemma cell_places:
  "cur_layer s = Body \<Longrightarrow>
   body_places (cell w h txt b l a f s) = body_places s @ [place (page_break_if_needed h s)]"
  using body_items_place [of "page_break_if_needed h s" "Cell w h txt b l a f"]
  by (simp add: body_places_def cell_def print_cell_def Let_def pbin_frame pbin_body)

lemma multi_cell_places:
  "cur_layer s = Body \<Longrightarrow>
   body_places (multi_cell L w h txt f s) = body_places s @ [place (page_break_if_needed h s)]"
  using body_items_place [of "page_break_if_needed h s" "MultiCell w h txt f"]
  by (simp add: body_places_def multi_cell_def Let_def pbin_frame pbin_body feed_lines_body
      split: nat.splits)

lemma cell_place_stays:
  "place (cell w h txt b 0 a f s) = place (page_break_if_needed h s)"
  by (simp add: place_def cell_def print_cell_def Let_def put_frame)

lemma place_after_cell:
  assumes "t_margin + 8 + h \<le> page_h - b_margin s"
    and "s' = cell w h txt b 0 a f s"
  shows "place (page_break_if_needed h (set_font fam sty sz s')) = place s'"
proof -
  have "will_page_break (set_font fam sty sz s') h = will_page_break (page_break_if_needed h s) h"
    unfolding assms(2)
    by (rule will_page_break_cong)
       (simp_all add: set_font_def cell_def print_cell_def Let_def put_frame)
  with no_second_break [OF assms(1)] show ?thesis
    by (simp add: page_break_if_needed_def place_def set_font_def)
qed

lemma bullet_item_same_line:
  assumes "cur_layer s = Body" and "b_margin s \<le> 273" and "CHR '':'' \<in> set item"
  shows "\<exists>ps pl. body_places (bullet_item L True item s) = ps @ [pl, pl]"
proof -
  let ?s2 = "set_font ''Arial'' ''B'' 10
     (cell 5 6 bullet 0 0 ''L'' False (cell 5 (default_h L (cur_font s)) [] 0 0 [] False s))"
  let ?w = "get_string_width L ?s2 (split_once CHR '':'' item ! 0 @ '': '')"
  let ?t = "split_once CHR '':'' item ! 0 @ '':''"
  let ?s3 = "cell ?w 6 ?t 0 0 [] False ?s2"
  have l2: "cur_layer ?s2 = Body" using assms(1) by (simp add: setters cell_frame)
  have m2: "t_margin + 8 + 6 \<le> page_h - b_margin ?s2"
    using assms(2) by (simp add: setters cell_frame t_margin_def page_h_def)
  have l3: "cur_layer (set_font ''Arial'' [] 10 ?s3) = Body"
    using l2 by (simp add: setters cell_frame)
  have p3: "place (page_break_if_needed 6 (set_font ''Arial'' [] 10 ?s3)) = place ?s3"
    by (rule place_after_cell [OF m2]) simp
  have e: "bullet_item L True item s =
      multi_cell L 0 6 (split_once CHR '':'' item ! 1) False (set_font ''Arial'' [] 10 ?s3)"
    using assms(3) by (simp add: bullet_item_def Let_def)
  have a: "body_places (set_font ''Arial'' [] 10 ?s3) = body_places ?s3"
    by (simp add: body_places_def body_items_def set_font_def)
  have b: "body_places ?s3 = body_places ?s2 @ [place (page_break_if_needed 6 ?s2)]"
    by (rule cell_places [OF l2])
  have "body_places (bullet_item L True item s) =
      body_places ?s2 @ [place (page_break_if_needed 6 ?s2), place ?s3]"
    unfolding e by (simp only: multi_cell_places [OF l3] a b p3 append_assoc append.simps)
  then show ?thesis by (simp only: cell_place_stays) blast
qed

text \<open>
  \<^bold>\<open>Claim C6.\<close> A bullet list draws, for each of its items in turn, what
  \<open>bullet_item_marks\<close> says: with the bold prefix switched on and a colon in the item, the
  label before the first colon (with the colon) in bold and then the remainder in regular
  weight; otherwise the whole item in regular weight as one paragraph. The label and
  the remainder are on the same line: the label's cell leaves the cursor on its line
  (\<^verbatim>\<open>ln = 0\<close>), and the remainder is drawn on the same page at the same height
  (for a bottom margin of at most 273, which leaves room for a line below the header).
\<close>

theorem bullet_list_marks:
  assumes "cur_layer s = Body"
  shows "body_marks (bullet_list L items bold_prefix s) =
       body_marks s @ concat (map (bullet_item_marks L bold_prefix) items) \<and>
     (cur_layer t = Body \<and> b_margin t \<le> 273 \<and> CHR '':'' \<in> set item \<longrightarrow>
        (\<exists>ps pl. body_places (bullet_item L True item t) = ps @ [pl, pl]))"
proof -
  let ?s0 = "set_text_color 51 51 51 (set_font ''Arial'' [] 10 s)"
  have l: "cur_layer ?s0 = Body" using assms by (simp add: setters)
  have f: "cur_font ?s0 = regular_font" by (simp add: setters regular_font_def)
  have m: "body_marks ?s0 = body_marks s" by (simp add: setters)
  from bullet_items_body_marks [OF l f, of L bold_prefix items] m
  have "body_marks (bullet_list L items bold_prefix s) =
       body_marks s @ concat (map (bullet_item_marks L bold_prefix) items)"
    by (simp add: bullet_list_def Let_def ln_pdf_def)
  then show ?thesis using bullet_item_same_line [of t item L] by blast
qed

theorem bullet_list_marks_witness:
  "body_marks (bullet_list narrow_layout [''a: b'', ''cd''] True page_one) =
     [(regular_font, Cell 5 0 [] 0 0 [] False),
      (regular_font, Cell 5 6 bullet 0 0 ''L'' False),
      (bold_font, Cell 3 6 ''a:'' 0 0 [] False),
      (regular_font, MultiCell 0 6 '' b'' False),
      (regular_font, Cell 5 0 [] 0 0 [] False),
      (regular_font, Cell 5 6 bullet 0 0 ''L'' False),
      (regular_font, MultiCell 0 6 ''cd'' False)] \<and>
   body_marks (bullet_list narrow_layout [''a: b''] False page_one) =
     [(regular_font, Cell 5 0 [] 0 0 [] False),
      (regular_font, Cell 5 6 bullet 0 0 ''L'' False),
      (regular_font, MultiCell 0 6 ''a: b'' False)] \<and>
   (\<exists>ps pl. body_places (bullet_item narrow_layout True ''a: b'' page_one) = ps @ [pl, pl])"
  using bullet_list_marks [of page_one narrow_layout "[''a: b'', ''cd'']" True page_one "''a: b''"]
    bullet_list_marks [of page_one narrow_layout "[''a: b'']" False page_one "''a: b''"]
  by (simp add: page_one_facts page_one_margin bullet_item_marks_def label_of_def remainder_of_def
      narrow_layout_def)

text \<open>
  \<^bold>\<open>Claim C10\<close>, as the script has it. An item is split at its first colon only: the
  text before the first colon, together with that colon, is drawn in bold, and all that
  follows the first colon, later colons included, in regular weight.
\<close>

theorem bullet_item_splits_at_first:
  assumes "item = lab @ CHR '':'' # rest" and "CHR '':'' \<notin> set lab"
    and "cur_layer s = Body"
  shows "body_marks (bullet_item L True item s) =
     body_marks s @
     [(cur_font s, Cell 5 (default_h L (cur_font s)) [] 0 0 [] False),
      (cur_font s, Cell 5 6 bullet 0 0 ''L'' False),
      (bold_font, Cell (string_width L bold_font (lab @ '': '')) 6 (lab @ '':'') 0 0 [] False),
      (regular_font, MultiCell 0 6 rest False)]"
proof -
  have "label_of item = lab"
    using assms(1,2) by (simp add: label_of_def takeWhile_first)
  moreover have "remainder_of item = rest"
    using assms(1,2) by (simp add: remainder_of_def dropWhile_first)
  moreover have "CHR '':'' \<in> set item" using assms(1) by simp
  ultimately show ?thesis using bullet_item_body_marks [OF assms(3), of L True item] by simp
qed

theorem bullet_item_splits_at_first_witness:
  "body_marks (bullet_item narrow_layout True ''a:b:c'' page_one) =
     [(cur_font page_one, Cell 5 0 [] 0 0 [] False),
      (cur_font page_one, Cell 5 6 bullet 0 0 ''L'' False),
      (bold_font, Cell 3 6 ''a:'' 0 0 [] False),
      (regular_font, MultiCell 0 6 ''b:c'' False)]"
  using bullet_item_splits_at_first [of "''a:b:c''" "''a''" "''b:c''" page_one narrow_layout]
  by (simp add: page_one_facts narrow_layout_def)

text \<open>
  Claim C10 as stated fails on the bold text: for the item \<^verbatim>\<open>a:b:c\<close> the bold
  text is \<^verbatim>\<open>a:\<close> (the source prints \<^verbatim>\<open>parts[0] + ':'\<close>), which is not
  exactly the text before the first colon.
\<close>

theorem bold_text_counterexample:
  "bold_text (bullet_item narrow_layout True ''a:b:c'' page_one) \<noteq>
     takeWhile (\<lambda>c. c \<noteq> CHR '':'') ''a:b:c''"
proof -
  have "bold_text (bullet_item narrow_layout True ''a:b:c'' page_one) = ''a:''"
    by (simp add: bold_text_def bullet_item_body_marks page_one_facts label_of_def remainder_of_def
        bold_font_def regular_font_def)
  then show ?thesis by simp
qed

section \<open>Page chrome\<close>

lemma chrome_add_page:
  "chrome_shapes Header p (add_page s) =
     chrome_shapes Header p s @ (if p = page s + 1 \<and> page s \<noteq> 0 then header_shapes else [])"
  "chrome_shapes Footer p (add_page s) =
     chrome_shapes Footer p s @ (if p = page s \<and> 2 \<le> page s then footer_shapes p else [])"
  by (auto simp add: chrome_shapes_def add_page_def chrome_defs setters header_shapes_def
      footer_shapes_def t_margin_def)

lemma chrome_inv_init: "chrome_inv FPDF_init"
  by (simp add: chrome_inv_def chrome_shapes_def FPDF_init_def)

lemma chrome_inv_add_page: "chrome_inv s \<Longrightarrow> chrome_inv (add_page s)"
  by (auto simp add: chrome_inv_def chrome_add_page add_page_frame)

lemma chrome_inv_put: "chrome_inv s \<Longrightarrow> chrome_inv (put sh s)"
  by (simp add: chrome_inv_def chrome_shapes_def put_def)

lemma chrome_inv_upd [simp]:
  "chrome_inv (s\<lparr>cur_y := y\<rparr>) = chrome_inv s"
  "chrome_inv (s\<lparr>lasth := y\<rparr>) = chrome_inv s"
  "chrome_inv (s\<lparr>cur_font := fo\<rparr>) = chrome_inv s"
  "chrome_inv (s\<lparr>text_color := c\<rparr>) = chrome_inv s"
  "chrome_inv (s\<lparr>draw_color := c\<rparr>) = chrome_inv s"
  "chrome_inv (s\<lparr>fill_color := c\<rparr>) = chrome_inv s"
  "chrome_inv (s\<lparr>line_width := y\<rparr>) = chrome_inv s"
  "chrome_inv (s\<lparr>auto_page_break := a\<rparr>) = chrome_inv s"
  "chrome_inv (s\<lparr>b_margin := y\<rparr>) = chrome_inv s"
  by (simp_all add: chrome_inv_def chrome_shapes_def)

lemma chrome_inv_pbin: "chrome_inv s \<Longrightarrow> chrome_inv (page_break_if_needed h s)"
  by (simp add: page_break_if_needed_def chrome_inv_add_page)

lemma chrome_inv_cell: "chrome_inv s \<Longrightarrow> chrome_inv (cell w h txt b l a f s)"
  by (simp add: cell_def print_cell_def Let_def chrome_inv_put chrome_inv_pbin)

lemma chrome_inv_feed_lines: "chrome_inv s \<Longrightarrow> chrome_inv (feed_lines n h s)"
  by (induction n arbitrary: s) (simp_all add: Let_def chrome_inv_pbin)

lemma chrome_inv_multi_cell: "chrome_inv s \<Longrightarrow> chrome_inv (multi_cell L w h txt f s)"
  by (simp add: multi_cell_def Let_def chrome_inv_put chrome_inv_pbin chrome_inv_feed_lines
      split: nat.splits)

lemmas chrome_inv_prims = chrome_inv_add_page chrome_inv_put chrome_inv_cell
  chrome_inv_multi_cell line_def rect_def setters Let_def

lemma chrome_inv_chapter_title: "chrome_inv s \<Longrightarrow> chrome_inv (chapter_title title level s)"
  by (simp add: chapter_title_def chrome_inv_prims)

lemma chrome_inv_chapter_body: "chrome_inv s \<Longrightarrow> chrome_inv (chapter_body L body s)"
  by (simp add: chapter_body_def chrome_inv_prims)

lemma chrome_inv_bullet_item: "chrome_inv s \<Longrightarrow> chrome_inv (bullet_item L bp item s)"
  by (simp add: bullet_item_def chrome_inv_prims)

lemma chrome_inv_bullet_items: "chrome_inv s \<Longrightarrow> chrome_inv (bullet_items L bp items s)"
  by (induction items arbitrary: s) (simp_all add: chrome_inv_bullet_item)

lemma chrome_inv_bullet_list: "chrome_inv s \<Longrightarrow> chrome_inv (bullet_list L items bp s)"
  by (simp add: bullet_list_def chrome_inv_bullet_items chrome_inv_prims)

lemma chrome_inv_numbered_items: "chrome_inv s \<Longrightarrow> chrome_inv (numbered_items L i items s)"
  by (induction items arbitrary: s i) (simp_all add: chrome_inv_prims)

lemma chrome_inv_numbered_list: "chrome_inv s \<Longrightarrow> chrome_inv (numbered_list L items s)"
  by (simp add: numbered_list_def chrome_inv_numbered_items chrome_inv_prims)

lemma chrome_inv_key_finding_box:
  "chrome_inv s \<Longrightarrow> chrome_inv (key_finding_box L title content s)"
  by (simp add: key_finding_box_def chrome_inv_prims)

lemma chrome_inv_info_box: "chrome_inv s \<Longrightarrow> chrome_inv (info_box L title items s)"
  by (simp add: info_box_def chrome_inv_bullet_list chrome_inv_prims)

lemma chrome_inv_header_cells:
  "chrome_inv s \<Longrightarrow> header_cells ws i hs s = Inr s' \<Longrightarrow> chrome_inv s'"
proof (induction hs arbitrary: s i)
  case Nil
  then show ?case by simp
next
  case (Cons h hs)
  then obtain w where w: "header_cells ws (i + 1) hs (cell w 8 h 1 0 ''L'' True s) = Inr s'"
    by (auto split: sum.splits)
  from Cons.IH [OF chrome_inv_cell [OF Cons.prems(1)] w] show ?case .
qed

lemma chrome_inv_row_cells:
  "chrome_inv s \<Longrightarrow> row_cells ws i cs s = Inr s' \<Longrightarrow> chrome_inv s'"
proof (induction cs arbitrary: s i)
  case Nil
  then show ?case by simp
next
  case (Cons c cs)
  then obtain w where w: "row_cells ws (i + 1) cs (cell w 7 c 1 0 ''L'' False s) = Inr s'"
    by (auto split: sum.splits)
  from Cons.IH [OF chrome_inv_cell [OF Cons.prems(1)] w] show ?case .
qed

lemma chrome_inv_data_rows:
  "chrome_inv s \<Longrightarrow> data_rows ws data s = Inr s' \<Longrightarrow> chrome_inv s'"
proof (induction data arbitrary: s)
  case Nil
  then show ?case by simp
next
  case (Cons row data)
  then obtain s1 where s1: "row_cells ws 0 row s = Inr s1" "data_rows ws data (ln_pdf None s1) = Inr s'"
    by (auto split: sum.splits)
  from chrome_inv_row_cells [OF Cons.prems(1) s1(1)] have "chrome_inv (ln_pdf None s1)"
    by (simp add: ln_pdf_def)
  from Cons.IH [OF this s1(2)] show ?case .
qed

lemma chrome_inv_create_table:
  assumes "chrome_inv s" and "create_table headers data col_widths s = Inr s'"
  shows "chrome_inv s'"
proof -
  let ?ws = "case col_widths of None \<Rightarrow> default_col_widths headers | Some ws \<Rightarrow> ws"
  let ?s1 = "set_text_color 51 51 51 (set_fill_color 248 249 250 (set_font ''Arial'' ''B'' 9 s))"
  from assms(2) obtain s2 s4 where
    s2: "header_cells ?ws 0 headers ?s1 = Inr s2" and
    s4: "data_rows ?ws data (set_fill_color 255 255 255 (set_font ''Arial'' [] 9 (ln_pdf None s2))) = Inr s4" and
    s': "s' = ln_pdf (Some 3) s4"
    by (auto simp: create_table_def Let_def split: sum.splits)
  have "chrome_inv ?s1" using assms(1) by (simp add: setters)
  from chrome_inv_header_cells [OF this s2] have "chrome_inv s2" .
  then have "chrome_inv (set_fill_color 255 255 255 (set_font ''Arial'' [] 9 (ln_pdf None s2)))"
    by (simp add: setters)
  from chrome_inv_data_rows [OF this s4] show ?thesis by (simp add: s' setters)
qed

lemma chrome_inv_exec: "chrome_inv s \<Longrightarrow> exec L c s = Inr s' \<Longrightarrow> chrome_inv s'"
  by (cases c)
     (auto simp: chrome_inv_prims chrome_inv_chapter_title chrome_inv_chapter_body
       chrome_inv_bullet_list chrome_inv_numbered_list chrome_inv_key_finding_box
       chrome_inv_info_box chrome_inv_create_table)

lemma chrome_inv_run: "chrome_inv s \<Longrightarrow> run L cs s = Inr s' \<Longrightarrow> chrome_inv s'"
proof (induction cs arbitrary: s)
  case Nil
  then show ?case by simp
next
  case (Cons c cs)
  then obtain s1 where s1: "exec L c s = Inr s1" "run L cs s1 = Inr s'"
    by (auto split: sum.splits)
  from Cons.IH [OF chrome_inv_exec [OF Cons.prems(1) s1(1)] s1(2)] show ?case .
qed

lemma chrome_close:
  "chrome_shapes Header p (close s) =
     chrome_shapes Header p (if page s = 0 then add_page s else s)"
  "chrome_shapes Footer p (close s) =
     chrome_shapes Footer p (if page s = 0 then add_page s else s) @
       (if p = (if page s = 0 then 1 else page s) \<and> 2 \<le> page s then footer_shapes p else [])"
  by (auto simp add: chrome_shapes_def close_def add_page_def chrome_defs setters footer_shapes_def)

lemma page_close: "page (close s) = (if page s = 0 then 1 else page s)"
  by (simp add: close_def add_page_def chrome_defs setters)

lemma exec_result:
  "(case exec L c s of Inl e \<Rightarrow> e = IndexError \<and> \<not> call_fits c | Inr s' \<Rightarrow> call_fits c)"
proof (cases c)
  case (CreateTable headers data col_widths)
  with create_table_result [of headers data col_widths s] show ?thesis
    by (simp split: sum.splits)
qed simp_all

lemma run_result:
  "(case run L cs s of Inl e \<Rightarrow> e = IndexError \<and> \<not> list_all call_fits cs
    | Inr s' \<Rightarrow> list_all call_fits cs)"
proof (induction cs arbitrary: s)
  case Nil
  then show ?case by simp
next
  case (Cons c cs)
  show ?case
  proof (cases "exec L c s")
    case (Inl e)
    with exec_result [where L = L and c = c and s = s] show ?thesis by simp
  next
    case (Inr s1)
    with exec_result [where L = L and c = c and s = s] Cons.IH [of s1] show ?thesis
      by (simp split: sum.splits)
  qed
qed

lemma toc_fits: "list_all call_fits (concat (map toc_entry es))"
  by (induction es) (auto simp: toc_entry_def)

lemma slooze_calls_fit: "list_all call_fits (slooze_calls m)"
  by (simp add: slooze_calls_def cover_page_def table_of_contents_def section_1_def
      section_2_def section_3_def section_4_def section_5_def section_6_def section_7_def
      section_8_def section_9_def toc_fits table_fits_def widths_used_def)

lemma slooze_run: "\<exists>s. run L (slooze_calls m) FPDF_init = Inr s"
  using run_result [where L = L and cs = "slooze_calls m" and s = FPDF_init]
    slooze_calls_fit [of m]
  by (cases "run L (slooze_calls m) FPDF_init") simp_all

lemma page_put: "page (put sh s) = page s"
  by (simp add: put_def)

lemma page_pbin: "n \<le> page s \<Longrightarrow> n \<le> page (page_break_if_needed h s)"
  by (simp add: page_break_if_needed_def add_page_frame)

lemma page_cell: "n \<le> page s \<Longrightarrow> n \<le> page (cell w h txt b l a f s)"
  by (simp add: cell_def print_cell_def Let_def page_put page_pbin)

lemma page_feed_lines: "n \<le> page s \<Longrightarrow> n \<le> page (feed_lines k h s)"
  by (induction k arbitrary: s) (simp_all add: Let_def page_pbin)

lemma page_multi_cell: "n \<le> page s \<Longrightarrow> n \<le> page (multi_cell L w h txt f s)"
  by (simp add: multi_cell_def Let_def page_put page_pbin page_feed_lines split: nat.splits)

lemmas page_prims = page_put page_cell page_multi_cell line_def rect_def setters Let_def

lemma page_chapter_title: "n \<le> page s \<Longrightarrow> n \<le> page (chapter_title title level s)"
  by (simp add: chapter_title_def page_prims)

lemma page_chapter_body: "n \<le> page s \<Longrightarrow> n \<le> page (chapter_body L body s)"
  by (simp add: chapter_body_def page_prims)

lemma page_bullet_item: "n \<le> page s \<Longrightarrow> n \<le> page (bullet_item L bp item s)"
  by (simp add: bullet_item_def page_prims)

lemma page_bullet_items: "n \<le> page s \<Longrightarrow> n \<le> page (bullet_items L bp items s)"
  by (induction items arbitrary: s) (simp_all add: page_bullet_item)

lemma page_bullet_list: "n \<le> page s \<Longrightarrow> n \<le> page (bullet_list L items bp s)"
  by (simp add: bullet_list_def page_bullet_items page_prims)

lemma page_numbered_items: "n \<le> page s \<Longrightarrow> n \<le> page (numbered_items L i items s)"
  by (induction items arbitrary: s i) (simp_all add: page_prims)

lemma page_numbered_list: "n \<le> page s \<Longrightarrow> n \<le> page (numbered_list L items s)"
  by (simp add: numbered_list_def page_numbered_items page_prims)

lemma page_key_finding_box: "n \<le> page s \<Longrightarrow> n \<le> page (key_finding_box L title content s)"
  by (simp add: key_finding_box_def page_prims)

lemma page_info_box: "n \<le> page s \<Longrightarrow> n \<le> page (info_box L title items s)"
  by (simp add: info_box_def page_bullet_list page_prims)

lemma page_header_cells:
  "n \<le> page s \<Longrightarrow> header_cells ws i hs s = Inr s' \<Longrightarrow> n \<le> page s'"
proof (induction hs arbitrary: s i)
  case Nil
  then show ?case by simp
next
  case (Cons h hs)
  then obtain w where w: "header_cells ws (i + 1) hs (cell w 8 h 1 0 ''L'' True s) = Inr s'"
    by (auto split: sum.splits)
  from Cons.IH [OF page_cell [OF Cons.prems(1)] w] show ?case .
qed

lemma page_row_cells:
  "n \<le> page s \<Longrightarrow> row_cells ws i cs s = Inr s' \<Longrightarrow> n \<le> page s'"
proof (induction cs arbitrary: s i)
  case Nil
  then show ?case by simp
next
  case (Cons c cs)
  then obtain w where w: "row_cells ws (i + 1) cs (cell w 7 c 1 0 ''L'' False s) = Inr s'"
    by (auto split: sum.splits)
  from Cons.IH [OF page_cell [OF Cons.prems(1)] w] show ?case .
qed

lemma page_data_rows:
  "n \<le> page s \<Longrightarrow> data_rows ws data s = Inr s' \<Longrightarrow> n \<le> page s'"
proof (induction data arbitrary: s)
  case Nil
  then show ?case by simp
next
  case (Cons row data)
  then obtain s1 where s1: "row_cells ws 0 row s = Inr s1" "data_rows ws data (ln_pdf None s1) = Inr s'"
    by (auto split: sum.splits)
  from page_row_cells [OF Cons.prems(1) s1(1)] have "n \<le> page (ln_pdf None s1)"
    by (simp add: ln_pdf_def)
  from Cons.IH [OF this s1(2)] show ?case .
qed

lemma page_create_table:
  assumes "n \<le> page s" and "create_table headers data col_widths s = Inr s'"
  shows "n \<le> page s'"
proof -
  let ?ws = "case col_widths of None \<Rightarrow> default_col_widths headers | Some ws \<Rightarrow> ws"
  let ?s1 = "set_text_color 51 51 51 (set_fill_color 248 249 250 (set_font ''Arial'' ''B'' 9 s))"
  from assms(2) obtain s2 s4 where
    s2: "header_cells ?ws 0 headers ?s1 = Inr s2" and
    s4: "data_rows ?ws data (set_fill_color 255 255 255 (set_font ''Arial'' [] 9 (ln_pdf None s2))) = Inr s4" and
    s': "s' = ln_pdf (Some 3) s4"
    by (auto simp: create_table_def Let_def split: sum.splits)
  have "n \<le> page ?s1" using assms(1) by (simp add: setters)
  from page_header_cells [OF this s2] have "n \<le> page s2" .
  then have "n \<le> page (set_fill_color 255 255 255 (set_font ''Arial'' [] 9 (ln_pdf None s2)))"
    by (simp add: setters)
  from page_data_rows [OF this s4] show ?thesis by (simp add: s' setters)
qed

lemma page_exec:
  "exec L c s = Inr s' \<Longrightarrow> page s + (if c = AddPage then 1 else 0) \<le> page s'"
  by (cases c)
     (auto simp: page_prims add_page_frame page_chapter_title page_chapter_body
       page_bullet_list page_numbered_list page_key_finding_box page_info_box
       intro: page_create_table)

lemma page_run: "run L cs s = Inr s' \<Longrightarrow> page s + count_list cs AddPage \<le> page s'"
proof (induction cs arbitrary: s)
  case Nil
  then show ?case by simp
next
  case (Cons c cs)
  then obtain s1 where s1: "exec L c s = Inr s1" "run L cs s1 = Inr s'"
    by (auto split: sum.splits)
  from page_exec [OF s1(1)] Cons.IH [OF s1(2)] show ?case by auto
qed

lemma toc_no_page: "count_list (concat (map toc_entry es)) AddPage = 0"
  by (induction es) (auto simp: toc_entry_def)

lemma slooze_calls_pages: "count_list (slooze_calls m) AddPage = 11"
  by (simp add: slooze_calls_def cover_page_def table_of_contents_def section_1_def
      section_2_def section_3_def section_4_def section_5_def section_6_def section_7_def
      section_8_def section_9_def toc_no_page)

text \<open>
  \<^bold>\<open>Claim C2.\<close> In every generated document the first page has no header and no
  footer, and every later page has the header (its title line and rule) and the footer
  (its page number), each once.
\<close>

theorem chrome_on_every_page_but_the_first:
  assumes "generate L calls = Inr s"
  shows "chrome_shapes Header 1 s = [] \<and> chrome_shapes Footer 1 s = [] \<and>
    (\<forall>p. 2 \<le> p \<and> p \<le> page s \<longrightarrow>
       chrome_shapes Header p s = header_shapes \<and> chrome_shapes Footer p s = footer_shapes p)"
proof -
  from assms obtain s0 where s0: "run L calls FPDF_init = Inr s0" and s: "s = close s0"
    by (auto simp: generate_def split: sum.splits)
  from chrome_inv_run [OF chrome_inv_init s0] have inv: "chrome_inv s0" .
  show ?thesis
  proof (cases "page s0 = 0")
    case True
    with inv show ?thesis
      by (auto simp add: s chrome_close page_close chrome_add_page chrome_inv_def)
  next
    case False
    with inv show ?thesis
      by (auto simp add: s chrome_close page_close chrome_inv_def)
  qed
qed

theorem chrome_on_every_page_but_the_first_witness:
  "\<exists>s. generate narrow_layout (slooze_calls ''February 2026'') = Inr s \<and> 11 \<le> page s \<and>
     chrome_shapes Header 1 s = [] \<and> chrome_shapes Footer 1 s = [] \<and>
     chrome_shapes Header 2 s = header_shapes \<and>
     chrome_shapes Footer 2 s = [Cell 0 10 ''Page 2'' 0 0 ''C'' False] \<and>
     chrome_shapes Header 11 s = header_shapes \<and>
     chrome_shapes Footer 11 s = [Cell 0 10 ''Page 11'' 0 0 ''C'' False]"
proof -
  from slooze_run obtain s0 where
    s0: "run narrow_layout (slooze_calls ''February 2026'') FPDF_init = Inr s0"
    by blast
  from page_run [OF s0] have p0: "11 \<le> page s0"
    by (simp add: slooze_calls_pages)
  have g: "generate narrow_layout (slooze_calls ''February 2026'') = Inr (close s0)"
    by (simp add: generate_def s0)
  have p: "11 \<le> page (close s0)" using p0 by (simp add: page_close)
  from chrome_on_every_page_but_the_first [OF g] p
  have "chrome_shapes Header 1 (close s0) = [] \<and> chrome_shapes Footer 1 (close s0) = [] \<and>
     chrome_shapes Header 2 (close s0) = header_shapes \<and>
     chrome_shapes Footer 2 (close s0) = footer_shapes 2 \<and>
     chrome_shapes Header 11 (close s0) = header_shapes \<and>
     chrome_shapes Footer 11 (close s0) = footer_shapes 11"
    by simp
  moreover have "footer_shapes 2 = [Cell 0 10 ''Page 2'' 0 0 ''C'' False]"
    "footer_shapes 11 = [Cell 0 10 ''Page 11'' 0 0 ''C'' False]"
    by code_simp+
  ultimately show ?thesis using g p by simp
qed

section \<open>The script\<close>

lemma script_outcome:
  "fst (script L E argv w) = None \<or> fst (script L E argv w) = Some ImportError \<or>
   fst (script L E argv w) = Some OSError"
proof -
  from slooze_run obtain s where s: "run L (slooze_calls (month_year_now E)) FPDF_init = Inr s"
    by blast
  show ?thesis
    by (simp add: script_def import_fpdf_def create_slooze_documentation_def s output_pdf_def
        Let_def)
qed

text \<open>
  \<^bold>\<open>Claim C1\<close> at the failing input. Without the package the import of line 21 raises
  before anything is printed: the run ends with the uncaught \<^verbatim>\<open>ImportError\<close>,
  exit status 1 and standard output as it was, so the message and the instructions of
  the guard in the main block are not printed. In no environment does the script end
  with the guard's \<^verbatim>\<open>exit(1)\<close>.
\<close>

theorem missing_fpdf_is_uncaught:
  "script L (E\<lparr>fpdf_installed := False\<rparr>) argv w = (Some ImportError, w) \<and>
   exit_status (Some ImportError) = 1 \<and>
   fst (script L E argv w) \<noteq> Some (SystemExit 1)"
  using script_outcome [of L E argv w]
  by (auto simp add: script_def import_fpdf_def exit_status_def)

text \<open>
  \<^bold>\<open>Claim C8\<close>, as the script has it. With the package present and the file writable,
  the script ends with status 0 and has written one file, named
  \<^verbatim>\<open>Slooze_Analysis_Documentation_FPDF.pdf\<close>, whatever its command line.
\<close>

theorem output_path_is_fixed:
  assumes "fpdf_installed E" and "writable E"
  shows "exit_status (fst (script L E argv w)) = 0 \<and>
     map fst (files (snd (script L E argv w))) =
       map fst (files w) @ [''Slooze_Analysis_Documentation_FPDF.pdf'']"
proof -
  from slooze_run obtain s where s: "run L (slooze_calls (month_year_now E)) FPDF_init = Inr s"
    by blast
  show ?thesis using assms
    by (simp add: script_def import_fpdf_def create_slooze_documentation_def s output_pdf_def
        print_def Let_def exit_status_def)
qed

theorem output_path_is_fixed_witness:
  "exit_status (fst (script narrow_layout example_env [''generate_slooze_pdf.py'']
       \<lparr>stdout = [], files = []\<rparr>)) = 0 \<and>
   map fst (files (snd (script narrow_layout example_env [''generate_slooze_pdf.py'']
       \<lparr>stdout = [], files = []\<rparr>))) = [''Slooze_Analysis_Documentation_FPDF.pdf'']"
  using output_path_is_fixed [of example_env narrow_layout "[''generate_slooze_pdf.py'']"
      "\<lparr>stdout = [], files = []\<rparr>"]
  by (simp add: example_env_def)

text \<open>
  Claim C8 as stated fails on the caller's path: called with the path
  \<^verbatim>\<open>report.pdf\<close> on its command line, the script does not write that file.
\<close>

theorem caller_path_counterexample:
  "map fst (files (snd (script narrow_layout example_env
       [''generate_slooze_pdf.py'', ''report.pdf''] \<lparr>stdout = [], files = []\<rparr>))) \<noteq>
     [''report.pdf'']"
proof -
  from slooze_run obtain s where
    s: "run narrow_layout (slooze_calls ''February 2026'') FPDF_init = Inr s"
    by blast
  show ?thesis
    by (simp add: script_def import_fpdf_def create_slooze_documentation_def s output_pdf_def
        print_def Let_def example_env_def)
qed

end
